theory Spec2Isabelle
  imports Main "HOL-Library.AList"
begin

unbundle bit_operations_syntax

section \<open>Python values, exceptions and dictionaries\<close>

text \<open>
  The launcher of \<^verbatim>\<open>jupyter_client/launcher.py\<close> is a thin layer of dictionary
  manipulation around the operating system's spawn primitive. Exceptions are values
  of type \<open>exc\<close>; every function that can raise returns \<open>exc + 'a\<close> together with the
  state it leaves behind (a raise does not undo the mutations made before it).
\<close>

datatype exc_class =
  FileNotFoundError | PermissionError | OSError | AttributeError | KeyError
  | TypeError | AssertionError | RuntimeError | KeyboardInterrupt | SystemExit

datatype exc = Raised exc_class string

text \<open>\<^verbatim>\<open>except Exception\<close> does not catch \<^verbatim>\<open>KeyboardInterrupt\<close> and \<^verbatim>\<open>SystemExit\<close>.\<close>

fun isinstance_Exception :: "exc \<Rightarrow> bool" where
  "isinstance_Exception (Raised c m) = (c \<noteq> KeyboardInterrupt \<and> c \<noteq> SystemExit)"

text \<open>
  The values that occur as spawn arguments: \<^verbatim>\<open>None\<close>, booleans, integers (file
  descriptors, flags), strings, open file objects and references to dictionary
  objects in the store.
\<close>

datatype pyval = VNone | VBool bool | VInt int | VStr string | VFile nat | VDict nat

text \<open>
  Python dictionaries keep insertion order, and assigning to an existing key keeps
  its position: this is \<open>AList.update\<close> on an association list. A dictionary holds
  each key once; the lists are read with \<open>map_of\<close>, so a list that repeats a key
  stands for the dictionary of its first entries.
\<close>

type_synonym environ = "(string \<times> string) list"
type_synonym kwargs = "(string \<times> pyval) list"

definition PIPE :: pyval where
  "PIPE = VInt (- 1)"

definition CREATE_NEW_PROCESS_GROUP :: int where
  "CREATE_NEW_PROCESS_GROUP = 0x200"

definition CREATE_NO_WINDOW :: int where
  "CREATE_NO_WINDOW = 0x08000000"

subsection \<open>\<^verbatim>\<open>str\<close> of an integer\<close>

definition digit_char :: "nat \<Rightarrow> char" where
  "digit_char d = ''0123456789'' ! d"

fun str_nat :: "nat \<Rightarrow> string" where
  "str_nat n = (if n < 10 then [digit_char n] else str_nat (n div 10) @ [digit_char (n mod 10)])"

declare str_nat.simps [simp del]

definition str :: "int \<Rightarrow> string" where
  "str i = (if i < 0 then CHR ''-'' # str_nat (nat (- i)) else str_nat (nat i))"

subsection \<open>\<^verbatim>\<open>str.endswith\<close>\<close>

definition endswith :: "string \<Rightarrow> string \<Rightarrow> bool" where
  "endswith s suffix = (length suffix \<le> length s \<and> drop (length s - length suffix) s = suffix)"

section \<open>The world outside the launcher\<close>

datatype spawn_primitive = Popen | create_subprocess_exec

text \<open>
  One invocation of a spawn primitive: which primitive, the command, the keyword
  arguments, and the contents (at the time of the call) of the mapping that the
  \<^verbatim>\<open>env\<close> keyword argument refers to.
\<close>

record spawn_call =
  primitive :: spawn_primitive
  call_cmd :: "string list"
  call_kwargs :: kwargs
  call_env :: environ

text \<open>
  The launcher's end of a pipe: open, closing (the close is requested and the
  descriptor is still open) or closed.
\<close>

datatype pipe_state = Open | Closing | Closed

text \<open>
  The process object returned by a spawn primitive, a \<^verbatim>\<open>Popen\<close> or an
  \<^verbatim>\<open>asyncio.subprocess.Process\<close> (the annotation of line 276): \<open>made_by\<close> is the
  primitive that made the object and so tells its class, \<open>proc_stdin\<close> is
  \<^verbatim>\<open>proc.stdin\<close> (\<open>None\<close> when no pipe was made), \<open>win32_interrupt_event\<close> is the
  attribute the launcher attaches on Windows (\<open>None\<close> while it is not set).
\<close>

record process =
  pid :: int
  made_by :: spawn_primitive
  proc_stdin :: "pipe_state option"
  win32_interrupt_event :: "pyval option"

text \<open>
  The diagnostic handed to the log sink. The format string of the source is fixed;
  the record holds the three values formatted into it, in order.
\<close>

record message =
  msg_cmd :: "string list"
  msg_path :: string
  msg_kwargs :: kwargs

text \<open>
  Everything the launcher reads from or calls in its surroundings: \<^verbatim>\<open>sys.platform\<close>,
  \<^verbatim>\<open>sys.executable\<close>, \<^verbatim>\<open>os.getpid()\<close>, \<^verbatim>\<open>os.defpath\<close>, the home directory of
  the invoking user, and the outcomes of \<^verbatim>\<open>open(os.devnull, "w")\<close>,
  \<^verbatim>\<open>create_interrupt_event()\<close> (module \<^verbatim>\<open>win_interrupt\<close>), \<^verbatim>\<open>DuplicateHandle\<close> on the
  current process, the spawn primitives and \<^verbatim>\<open>get_logger().error\<close>
  (\<open>Some e\<close>: the sink raises \<open>e\<close>).
\<close>

record world =
  sys_platform :: string
  sys_executable :: string
  os_getpid :: int
  os_defpath :: string
  home_dir :: string
  open_devnull :: "exc + nat"
  create_interrupt_event :: "exc + int"
  DuplicateHandle :: "exc + int"
  os_spawn :: "spawn_call \<Rightarrow> exc + process"
  logger_error :: "message \<Rightarrow> exc option"

text \<open>
  The mutable state: a store of dictionary objects addressed by reference (the
  caller's environment mapping and \<^verbatim>\<open>os.environ\<close> live there, so aliasing is
  visible), the next free reference, the reference of \<^verbatim>\<open>os.environ\<close>, the messages
  the log sink accepted, and the spawn primitive invocations made so far.
\<close>

record state =
  heap :: "nat \<Rightarrow> environ"
  next_ref :: nat
  os_environ :: nat
  error_log :: "message list"
  spawned :: "spawn_call list"

text \<open>\<^verbatim>\<open>os.environ.copy()\<close>: a new dictionary object with the same contents.\<close>

definition environ_copy :: "state \<Rightarrow> nat \<times> state" where
  "environ_copy s =
     (next_ref s,
      s\<lparr>heap := (heap s)(next_ref s := heap s (os_environ s)), next_ref := Suc (next_ref s)\<rparr>)"

text \<open>\<^verbatim>\<open>env[k] = v\<close> on the dictionary object \<open>r\<close>.\<close>

definition env_setitem :: "nat \<Rightarrow> string \<Rightarrow> string \<Rightarrow> state \<Rightarrow> state" where
  "env_setitem r k v s = s\<lparr>heap := (heap s)(r := AList.update k v (heap s r))\<rparr>"

text \<open>
  Modelled from the spec: \<^verbatim>\<open>os.path.expanduser\<close> is a library function and not part
  of the source. The spec says: command elements beginning with \<^verbatim>\<open>~\<close> are expanded
  to the invoking user's home directory, elements not beginning with \<^verbatim>\<open>~\<close> are
  passed through unchanged (\<^verbatim>\<open>~/bin/run\<close> with home \<^verbatim>\<open>/home/u\<close> yields
  \<^verbatim>\<open>/home/u/bin/run\<close>).
\<close>

definition expanduser :: "world \<Rightarrow> string \<Rightarrow> string" where
  "expanduser w path =
     (case path of [] \<Rightarrow> path
      | c # rest \<Rightarrow> if c = CHR ''~'' then home_dir w @ rest else path)"

section \<open>\<^verbatim>\<open>_prepare_process_args\<close>\<close>

definition cwd_value :: "string option \<Rightarrow> pyval" where
  "cwd_value cwd = (case cwd of None \<Rightarrow> VNone | Some d \<Rightarrow> VStr d)"

text \<open>
  \<^verbatim>\<open>kwargs["creationflags"] = kwargs.setdefault("creationflags", 0) | 0x08000000\<close>
  (lines 253 to 255); \<^verbatim>\<open>|\<close> raises \<^verbatim>\<open>TypeError\<close> on a value that is not a number.
\<close>

definition or_no_window :: "kwargs \<Rightarrow> exc + kwargs" where
  "or_no_window kwargs =
     (case map_of kwargs ''creationflags'' of
        None \<Rightarrow> Inr (AList.update ''creationflags'' (VInt (0 OR CREATE_NO_WINDOW)) kwargs)
      | Some (VInt n) \<Rightarrow> Inr (AList.update ''creationflags'' (VInt (n OR CREATE_NO_WINDOW)) kwargs)
      | Some (VBool b) \<Rightarrow>
          Inr (AList.update ''creationflags'' (VInt ((if b then 1 else 0) OR CREATE_NO_WINDOW)) kwargs)
      | Some _ \<Rightarrow> Inl (Raised TypeError ''unsupported operand type(s) for |''))"

text \<open>The branch \<^verbatim>\<open>sys.platform == "win32"\<close>, lines 209 to 261.\<close>

definition prepare_win32 ::
  "world \<Rightarrow> state \<Rightarrow> nat \<Rightarrow> bool \<Rightarrow> bool \<Rightarrow> string option \<Rightarrow> kwargs
     \<Rightarrow> (exc + kwargs \<times> pyval) \<times> state" where
  "prepare_win32 w s env independent redirect_out cwd kwargs0 =
     (let kwargs1 = (if cwd \<noteq> None \<and> cwd \<noteq> Some [] then AList.update ''cwd'' (cwd_value cwd) kwargs0
                     else kwargs0)
      in (case create_interrupt_event w of
            Inl e \<Rightarrow> (Inl e, s)
          | Inr interrupt_event \<Rightarrow>
             (let s1 = env_setitem env ''JPY_INTERRUPT_EVENT'' (str interrupt_event) s
              in (case map_of (heap s1 env) ''JPY_INTERRUPT_EVENT'' of
                    None \<Rightarrow> (Inl (Raised KeyError ''JPY_INTERRUPT_EVENT''), s1)
                  | Some v \<Rightarrow>
                     (let s2 = env_setitem env ''IPY_INTERRUPT_EVENT'' v s1
                      in (case (if independent
                                then Inr (AList.update ''creationflags''
                                            (VInt CREATE_NEW_PROCESS_GROUP) kwargs1, s2)
                                else (case DuplicateHandle w of
                                        Inl e \<Rightarrow> Inl e
                                      | Inr handle \<Rightarrow>
                                          Inr (kwargs1,
                                               env_setitem env ''JPY_PARENT_PID'' (str handle) s2))) of
                            Inl e \<Rightarrow> (Inl e, s2)
                          | Inr (kwargs2, s3) \<Rightarrow>
                             (case (if redirect_out then or_no_window kwargs2 else Inr kwargs2) of
                                Inl e \<Rightarrow> (Inl e, s3)
                              | Inr kwargs3 \<Rightarrow>
                                  (Inr (AList.update ''close_fds'' (VBool False) kwargs3,
                                        VInt interrupt_event),
                                   s3))))))))"

text \<open>The other branch, lines 263 to 271.\<close>

definition prepare_posix ::
  "world \<Rightarrow> state \<Rightarrow> nat \<Rightarrow> bool \<Rightarrow> kwargs \<Rightarrow> (exc + kwargs \<times> pyval) \<times> state" where
  "prepare_posix w s env independent kwargs0 =
     (let interrupt_event = VNone;
          kwargs1 = AList.update ''start_new_session'' (VBool True) kwargs0
      in (Inr (kwargs1, interrupt_event),
          if \<not> independent then env_setitem env ''JPY_PARENT_PID'' (str (os_getpid w)) s else s))"

text \<open>
  A function that declares parameters by name beside \<^verbatim>\<open>**kw\<close> collects in \<^verbatim>\<open>kw\<close> every
  other keyword of the call. A call that passes the declared parameters by name and a
  bag as \<^verbatim>\<open>**kw\<close> gives a parameter two values when the bag holds its name, and raises
  \<^verbatim>\<open>TypeError\<close> before the body runs.
\<close>

definition collides :: "string list \<Rightarrow> kwargs \<Rightarrow> bool" where
  "collides params kw = list_ex (\<lambda>(name, value). name \<in> set params) kw"

text \<open>
  The parameters of \<^verbatim>\<open>_prepare_process_args\<close> (lines 161 to 166), which both launch
  functions pass by keyword together with \<^verbatim>\<open>**kw\<close> (lines 63 and 119), and the parameters
  of \<^verbatim>\<open>launch_kernel\<close> and \<^verbatim>\<open>async_launch_kernel\<close> (lines 22 to 28 and 79 to 85).
\<close>

definition parameter_names :: "string list" where
  "parameter_names = [''stdin'', ''stdout'', ''stderr'', ''env'', ''independent'', ''cwd'']"

definition launch_parameter_names :: "string list" where
  "launch_parameter_names = ''cmd'' # parameter_names"

text \<open>
  \<^verbatim>\<open>_prepare_process_args\<close>, lines 161 to 273. The caller's \<^verbatim>\<open>env\<close> is a reference
  (\<open>None\<close> when the caller passes none); \<^verbatim>\<open>kw\<close> is the bag of extra keyword options.
  The result is the spawn-argument dictionary and the interrupt event.
\<close>

definition prepare_process_args ::
  "world \<Rightarrow> state \<Rightarrow> pyval \<Rightarrow> pyval \<Rightarrow> pyval \<Rightarrow> nat option \<Rightarrow> bool \<Rightarrow> string option \<Rightarrow> kwargs
     \<Rightarrow> (exc + kwargs \<times> pyval) \<times> state" where
  "prepare_process_args w s stdin stdout stderr env independent cwd kw =
     (if collides parameter_names kw
      then (Inl (Raised TypeError ''got multiple values for keyword argument''), s)
      else
     (let stdin' = (if stdin = VNone then PIPE else stdin);
          redirect_out = endswith (sys_executable w) ''pythonw.exe''
      in (case (if redirect_out
                then (case open_devnull w of
                        Inl e \<Rightarrow> Inl e
                      | Inr blackhole \<Rightarrow>
                          Inr (if stdout = VNone then VFile blackhole else stdout,
                               if stderr = VNone then VFile blackhole else stderr))
                else Inr (stdout, stderr)) of
            Inl e \<Rightarrow> (Inl e, s)
          | Inr (stdout', stderr') \<Rightarrow>
             (let (env', s1) = (case env of Some r \<Rightarrow> (r, s) | None \<Rightarrow> environ_copy s);
                  kwargs = kw;
                  kwargs = AList.update ''stdin'' stdin' kwargs;
                  kwargs = AList.update ''stdout'' stdout' kwargs;
                  kwargs = AList.update ''stderr'' stderr' kwargs;
                  kwargs = AList.update ''cwd'' (cwd_value cwd) kwargs;
                  kwargs = AList.update ''env'' (VDict env') kwargs
              in if sys_platform w = ''win32''
                 then prepare_win32 w s1 env' independent redirect_out cwd kwargs
                 else prepare_posix w s1 env' independent kwargs))))"

section \<open>\<^verbatim>\<open>_handle_subprocess_exception\<close> and \<^verbatim>\<open>_finish_process_launch\<close>\<close>

text \<open>
  The body of the \<^verbatim>\<open>try\<close> block, lines 147 to 156. The parameter \<^verbatim>\<open>env\<close> is what the
  launch function received from its caller: with \<^verbatim>\<open>None\<close>, \<^verbatim>\<open>env.get\<close> raises
  \<^verbatim>\<open>AttributeError\<close> before anything is logged.
\<close>

definition diagnostic_body ::
  "world \<Rightarrow> state \<Rightarrow> string list \<Rightarrow> nat option \<Rightarrow> kwargs \<Rightarrow> (exc + unit) \<times> state" where
  "diagnostic_body w s cmd env kwargs =
     (let without_env = filter (\<lambda>(key, value). key \<noteq> ''env'') kwargs
      in (case env of
            None \<Rightarrow> (Inl (Raised AttributeError ''NoneType object has no attribute get''), s)
          | Some r \<Rightarrow>
             (let path = (case map_of (heap s r) ''PATH'' of Some p \<Rightarrow> p | None \<Rightarrow> os_defpath w);
                  msg = \<lparr>msg_cmd = cmd, msg_path = path, msg_kwargs = without_env\<rparr>
              in (case logger_error w msg of
                    Some e \<Rightarrow> (Inl e, s)
                  | None \<Rightarrow> (Inr (), s\<lparr>error_log := error_log s @ [msg]\<rparr>)))))"

text \<open>
  \<^verbatim>\<open>_handle_subprocess_exception\<close>, lines 141 to 158: whatever the \<^verbatim>\<open>try\<close> block
  did, the \<^verbatim>\<open>finally\<close> clause raises \<^verbatim>\<open>exc\<close>. The function never returns normally.
\<close>

definition handle_subprocess_exception ::
  "world \<Rightarrow> state \<Rightarrow> exc \<Rightarrow> string list \<Rightarrow> nat option \<Rightarrow> kwargs \<Rightarrow> (exc + process) \<times> state" where
  "handle_subprocess_exception w s exc cmd env kwargs =
     (case diagnostic_body w s cmd env kwargs of
        (Inl _, s') \<Rightarrow> (Inl exc, s')
      | (Inr _, s') \<Rightarrow> (Inl exc, s'))"

text \<open>
  \<^verbatim>\<open>subprocess.stdin.close()\<close>, line 289. The \<^verbatim>\<open>stdin\<close> of a \<^verbatim>\<open>Popen\<close> is a file object:
  \<^verbatim>\<open>close\<close> closes the descriptor before it returns. The \<^verbatim>\<open>stdin\<close> of an
  \<^verbatim>\<open>asyncio.subprocess.Process\<close> is a \<^verbatim>\<open>StreamWriter\<close>: \<^verbatim>\<open>close\<close> asks the transport to
  close, which the event loop does when it next runs; when \<^verbatim>\<open>close\<close> returns the stream
  is closing and the descriptor is still open (the launcher does not wait for it).
\<close>

definition writer_close :: "pipe_state \<Rightarrow> pipe_state" where
  "writer_close st = (if st = Closed then Closed else Closing)"

definition close_stdin :: "spawn_primitive \<Rightarrow> pipe_state \<Rightarrow> pipe_state" where
  "close_stdin cls st = (case cls of Popen \<Rightarrow> Closed | create_subprocess_exec \<Rightarrow> writer_close st)"

text \<open>\<^verbatim>\<open>_finish_process_launch\<close>, lines 276 to 289.\<close>

definition finish_process_launch ::
  "world \<Rightarrow> state \<Rightarrow> process option \<Rightarrow> pyval \<Rightarrow> pyval \<Rightarrow> (exc + process) \<times> state" where
  "finish_process_launch w s subprocess stdin interrupt_event =
     (case subprocess of
        None \<Rightarrow> (Inl (Raised AssertionError []), s)
      | Some p \<Rightarrow>
         (let p1 = (if sys_platform w = ''win32''
                    then p\<lparr>win32_interrupt_event := Some interrupt_event\<rparr> else p)
          in if stdin = VNone
             then (case proc_stdin p1 of
                     None \<Rightarrow> (Inl (Raised AttributeError ''NoneType object has no attribute close''), s)
                   | Some st \<Rightarrow>
                       (Inr (p1\<lparr>proc_stdin := Some (close_stdin (made_by p1) st)\<rparr>), s))
             else (Inr p1, s)))"

section \<open>\<^verbatim>\<open>launch_kernel\<close> and \<^verbatim>\<open>async_launch_kernel\<close>\<close>

text \<open>The contents of the mapping behind the \<^verbatim>\<open>env\<close> keyword argument.\<close>

definition env_contents :: "state \<Rightarrow> kwargs \<Rightarrow> environ" where
  "env_contents s kwargs = (case map_of kwargs ''env'' of Some (VDict r) \<Rightarrow> heap s r | _ \<Rightarrow> [])"

text \<open>
  Invoking a primitive, \<^verbatim>\<open>Popen(cmd, **kwargs)\<close> or
  \<^verbatim>\<open>create_subprocess_exec(*cmd, **kwargs)\<close>: the call is recorded and the world
  gives its outcome; the object a primitive returns is of that primitive's class,
  whatever the world says. In the launch functions below, an exception that is an
  \<^verbatim>\<open>Exception\<close> goes to the handler and any other propagates as it is; on success
  the process is finished.
\<close>

definition invoke ::
  "world \<Rightarrow> state \<Rightarrow> spawn_primitive \<Rightarrow> string list \<Rightarrow> kwargs \<Rightarrow> (exc + process) \<times> state" where
  "invoke w s prim cmd kwargs =
     (let call = \<lparr>primitive = prim, call_cmd = cmd, call_kwargs = kwargs,
                  call_env = env_contents s kwargs\<rparr>
      in ((case os_spawn w call of
             Inl e \<Rightarrow> Inl e
           | Inr p \<Rightarrow> Inr (p\<lparr>made_by := prim\<rparr>)),
          s\<lparr>spawned := spawned s @ [call]\<rparr>))"

text \<open>
  \<^verbatim>\<open>launch_kernel\<close>, lines 21 to 76. The bag \<^verbatim>\<open>kw\<close> is what the caller passes beside the
  declared parameters; a bag that names one of them fails the call.
\<close>

definition launch_kernel ::
  "world \<Rightarrow> state \<Rightarrow> string list \<Rightarrow> pyval \<Rightarrow> pyval \<Rightarrow> pyval \<Rightarrow> nat option \<Rightarrow> bool \<Rightarrow> string option
     \<Rightarrow> kwargs \<Rightarrow> (exc + process) \<times> state" where
  "launch_kernel w s cmd stdin stdout stderr env independent cwd kw =
     (if collides launch_parameter_names kw
      then (Inl (Raised TypeError ''got multiple values for keyword argument''), s)
      else
     (case prepare_process_args w s stdin stdout stderr env independent cwd kw of
        (Inl e, s1) \<Rightarrow> (Inl e, s1)
      | (Inr (kwargs, interrupt_event), s1) \<Rightarrow>
         (let cmd' = map (expanduser w) cmd
          in (case invoke w s1 Popen cmd' kwargs of
              (Inl exc, s2) \<Rightarrow>
                if isinstance_Exception exc
                then handle_subprocess_exception w s2 exc cmd' env kwargs
                else (Inl exc, s2)
            | (Inr proc, s2) \<Rightarrow> finish_process_launch w s2 (Some proc) stdin interrupt_event))))"

text \<open>\<^verbatim>\<open>async_launch_kernel\<close>, lines 79 to 138.\<close>

definition async_launch_kernel ::
  "world \<Rightarrow> state \<Rightarrow> string list \<Rightarrow> pyval \<Rightarrow> pyval \<Rightarrow> pyval \<Rightarrow> nat option \<Rightarrow> bool \<Rightarrow> string option
     \<Rightarrow> kwargs \<Rightarrow> (exc + process) \<times> state" where
  "async_launch_kernel w s cmd stdin stdout stderr env independent cwd kw =
     (if collides launch_parameter_names kw
      then (Inl (Raised TypeError ''got multiple values for keyword argument''), s)
      else
     (case prepare_process_args w s stdin stdout stderr env independent cwd kw of
        (Inl e, s1) \<Rightarrow> (Inl e, s1)
      | (Inr (kwargs, interrupt_event), s1) \<Rightarrow>
         (let cmd' = map (expanduser w) cmd
          in (case (if sys_platform w = ''win32''
                  then invoke w s1 Popen cmd' kwargs
                  else invoke w s1 create_subprocess_exec cmd' kwargs) of
              (Inl exc, s2) \<Rightarrow>
                if isinstance_Exception exc
                then handle_subprocess_exception w s2 exc cmd' env kwargs
                else (Inl exc, s2)
            | (Inr proc, s2) \<Rightarrow> finish_process_launch w s2 (Some proc) stdin interrupt_event))))"

text \<open>The spawn primitive invocations made between two states.\<close>

definition new_calls :: "state \<Rightarrow> state \<Rightarrow> spawn_call list" where
  "new_calls s s' = drop (length (spawned s)) (spawned s')"

section \<open>Notions used in the statements and proofs\<close>

text \<open>
  The two launch functions differ in the primitive they invoke and in nothing else; the
  lemmas are proved once, for the common shape with the primitive as a parameter.
\<close>

definition launch_via ::
  "spawn_primitive \<Rightarrow> world \<Rightarrow> state \<Rightarrow> string list \<Rightarrow> pyval \<Rightarrow> pyval \<Rightarrow> pyval \<Rightarrow> nat option \<Rightarrow> bool
     \<Rightarrow> string option \<Rightarrow> kwargs \<Rightarrow> (exc + process) \<times> state" where
  "launch_via prim w s cmd stdin stdout stderr env independent cwd kw =
     (if collides launch_parameter_names kw
      then (Inl (Raised TypeError ''got multiple values for keyword argument''), s)
      else
     (case prepare_process_args w s stdin stdout stderr env independent cwd kw of
        (Inl e, s1) \<Rightarrow> (Inl e, s1)
      | (Inr (kwargs, interrupt_event), s1) \<Rightarrow>
         (let cmd' = map (expanduser w) cmd
          in (case invoke w s1 prim cmd' kwargs of
              (Inl exc, s2) \<Rightarrow>
                if isinstance_Exception exc
                then handle_subprocess_exception w s2 exc cmd' env kwargs
                else (Inl exc, s2)
            | (Inr proc, s2) \<Rightarrow> finish_process_launch w s2 (Some proc) stdin interrupt_event))))"

text \<open>The parts of the state that preparing the arguments leaves alone.\<close>

definition same_rest :: "state \<Rightarrow> state \<Rightarrow> bool" where
  "same_rest s s' \<longleftrightarrow>
     os_environ s' = os_environ s \<and> error_log s' = error_log s \<and> spawned s' = spawned s"

text \<open>The dictionary object that receives the injected keys, and what it holds at first.\<close>

definition env_target :: "state \<Rightarrow> nat option \<Rightarrow> nat" where
  "env_target s env = (case env of Some r \<Rightarrow> r | None \<Rightarrow> next_ref s)"

definition env_initial :: "state \<Rightarrow> nat option \<Rightarrow> environ" where
  "env_initial s env = (case env of Some r \<Rightarrow> heap s r | None \<Rightarrow> heap s (os_environ s))"

text \<open>The state and the dictionary the platform branch starts from.\<close>

definition base_state :: "state \<Rightarrow> nat option \<Rightarrow> state" where
  "base_state s env = (case env of Some r \<Rightarrow> s | None \<Rightarrow> snd (environ_copy s))"

definition main_kwargs ::
  "state \<Rightarrow> pyval \<Rightarrow> pyval \<Rightarrow> pyval \<Rightarrow> nat option \<Rightarrow> string option \<Rightarrow> kwargs \<Rightarrow> kwargs" where
  "main_kwargs s stdin so se env cwd kw =
     AList.update ''env'' (VDict (env_target s env))
       (AList.update ''cwd'' (cwd_value cwd)
         (AList.update ''stderr'' se
           (AList.update ''stdout'' so
             (AList.update ''stdin'' (if stdin = VNone then PIPE else stdin) kw))))"

definition resolved_outputs :: "world \<Rightarrow> pyval \<Rightarrow> pyval \<Rightarrow> pyval \<Rightarrow> pyval \<Rightarrow> bool" where
  "resolved_outputs w stdout stderr so se \<longleftrightarrow>
     (if endswith (sys_executable w) ''pythonw.exe''
      then \<exists>f. open_devnull w = Inr f \<and> so = (if stdout = VNone then VFile f else stdout) \<and>
               se = (if stderr = VNone then VFile f else stderr)
      else so = stdout \<and> se = stderr)"

definition the_call :: "spawn_primitive \<Rightarrow> world \<Rightarrow> state \<Rightarrow> string list \<Rightarrow> kwargs \<Rightarrow> spawn_call" where
  "the_call prim w s1 cmd kwargs =
     \<lparr>primitive = prim, call_cmd = map (expanduser w) cmd, call_kwargs = kwargs,
      call_env = env_contents s1 kwargs\<rparr>"

section \<open>Concrete worlds and states\<close>

text \<open>
  A POSIX host: the spawn primitive succeeds and gives the process a standard input
  pipe when it is asked for one.
\<close>

definition posix_world :: world where
  "posix_world =
     \<lparr>sys_platform = ''linux'', sys_executable = ''/usr/bin/python3'', os_getpid = 4242,
      os_defpath = ''/bin:/usr/bin'', home_dir = ''/home/u'', open_devnull = Inr 7,
      create_interrupt_event = Inl (Raised RuntimeError ''no events''),
      DuplicateHandle = Inl (Raised RuntimeError ''no handles''),
      os_spawn = (\<lambda>c. Inr \<lparr>pid = 100, made_by = primitive c,
                            proc_stdin = (if map_of (call_kwargs c) ''stdin'' = Some PIPE
                                          then Some Open else None),
                            win32_interrupt_event = None\<rparr>),
      logger_error = (\<lambda>m. None)\<rparr>"

text \<open>The same host, where the executable does not exist.\<close>

definition failing_world :: world where
  "failing_world =
     posix_world\<lparr>os_spawn := (\<lambda>c. Inl (Raised FileNotFoundError ''/does/not/exist''))\<rparr>"

text \<open>The same again, with a log sink that raises.\<close>

definition deaf_world :: world where
  "deaf_world = failing_world\<lparr>logger_error := (\<lambda>m. Some (Raised RuntimeError ''sink closed''))\<rparr>"

text \<open>
  A POSIX host on which creating a session is refused: the spawn primitive raises
  whenever a new session is requested, and succeeds otherwise.
\<close>

definition no_setsid_world :: world where
  "no_setsid_world =
     posix_world\<lparr>os_spawn :=
       (\<lambda>c. if map_of (call_kwargs c) ''start_new_session'' = Some (VBool True)
            then Inl (Raised PermissionError ''setsid'')
            else Inr \<lparr>pid = 100, made_by = primitive c, proc_stdin = Some Open,
                      win32_interrupt_event = None\<rparr>)\<rparr>"

text \<open>A Windows host running under \<^verbatim>\<open>pythonw.exe\<close>.\<close>

definition win32_world :: world where
  "win32_world =
     \<lparr>sys_platform = ''win32'', sys_executable = ''C:/Python/pythonw.exe'', os_getpid = 4242,
      os_defpath = ''.;C:/bin'', home_dir = ''C:/Users/u'', open_devnull = Inr 7,
      create_interrupt_event = Inr 812,
      DuplicateHandle = Inr 640,
      os_spawn = (\<lambda>c. Inr \<lparr>pid = 100, made_by = primitive c,
                            proc_stdin = (if map_of (call_kwargs c) ''stdin'' = Some PIPE
                                          then Some Open else None),
                            win32_interrupt_event = None\<rparr>),
      logger_error = (\<lambda>m. None)\<rparr>"

text \<open>
  A store with \<^verbatim>\<open>os.environ\<close> at reference 0 and a mapping of the caller's at
  reference 2.
\<close>

definition init_state :: state where
  "init_state =
     \<lparr>heap = (\<lambda>r. if r = 0 then [(''PATH'', ''/usr/local/bin''), (''HOME'', ''/home/u'')]
                   else if r = 2 then [(''LANG'', ''C'')] else []),
      next_ref = 3, os_environ = 0, error_log = [], spawned = []\<rparr>"

text \<open>
  The store of a launcher that is itself a kernel started by another launcher: its
  own environment carries the identity of its parent.
\<close>

definition kernel_state :: state where
  "kernel_state =
     \<lparr>heap = (\<lambda>r. if r = 0 then [(''PATH'', ''/usr/local/bin''), (''JPY_PARENT_PID'', ''77'')]
                   else []),
      next_ref = 3, os_environ = 0, error_log = [], spawned = []\<rparr>"

section \<open>Lemmas about the launcher\<close>

lemma launch_kernel_via:
  "launch_kernel w s cmd stdin stdout stderr env independent cwd kw =
   launch_via Popen w s cmd stdin stdout stderr env independent cwd kw"
  by (simp add: launch_kernel_def launch_via_def)

lemma async_launch_kernel_via:
  "async_launch_kernel w s cmd stdin stdout stderr env independent cwd kw =
   launch_via (if sys_platform w = ''win32'' then Popen else create_subprocess_exec)
     w s cmd stdin stdout stderr env independent cwd kw"
  by (cases "sys_platform w = ''win32''")
     (simp_all add: async_launch_kernel_def launch_via_def Let_def split: prod.splits sum.splits)

lemma env_setitem_fields [simp]:
  "heap (env_setitem r k v s) = (heap s)(r := AList.update k v (heap s r))"
  "next_ref (env_setitem r k v s) = next_ref s"
  "os_environ (env_setitem r k v s) = os_environ s"
  "error_log (env_setitem r k v s) = error_log s"
  "spawned (env_setitem r k v s) = spawned s"
  by (simp_all add: env_setitem_def)

lemma environ_copy_fields [simp]:
  "fst (environ_copy s) = next_ref s"
  "heap (snd (environ_copy s)) = (heap s)(next_ref s := heap s (os_environ s))"
  "next_ref (snd (environ_copy s)) = Suc (next_ref s)"
  "os_environ (snd (environ_copy s)) = os_environ s"
  "error_log (snd (environ_copy s)) = error_log s"
  "spawned (snd (environ_copy s)) = spawned s"
  by (simp_all add: environ_copy_def)

lemma prepare_win32_rest:
  "same_rest s (snd (prepare_win32 w s env independent redirect_out cwd kwargs0)) \<and>
   next_ref (snd (prepare_win32 w s env independent redirect_out cwd kwargs0)) = next_ref s"
  by (simp add: prepare_win32_def same_rest_def Let_def AList.update_conv'
      split: sum.splits option.splits prod.splits)


lemma prepare_posix_rest:
  "same_rest s (snd (prepare_posix w s env independent kwargs0)) \<and>
   next_ref (snd (prepare_posix w s env independent kwargs0)) = next_ref s"
  by (simp add: prepare_posix_def same_rest_def Let_def)


lemma prepare_process_args_rest:
  "same_rest s (snd (prepare_process_args w s stdin stdout stderr env independent cwd kw))"
  using prepare_win32_rest prepare_posix_rest
  by (auto simp add: prepare_process_args_def Let_def same_rest_def environ_copy_def
      split: sum.splits option.splits prod.splits)



lemma or_no_window_other:
  "or_no_window k2 = Inr k3 \<Longrightarrow> k \<noteq> ''creationflags'' \<Longrightarrow> map_of k3 k = map_of k2 k"
  by (auto simp add: or_no_window_def AList.update_conv' split: option.splits pyval.splits)

lemma prepare_posix_kwargs:
  "prepare_posix w s env independent kwargs0 = (Inr (kwargs, ie), s1) \<Longrightarrow>
   map_of kwargs = (map_of kwargs0)(''start_new_session'' \<mapsto> VBool True) \<and> ie = VNone"
  by (auto simp add: prepare_posix_def Let_def AList.update_conv')

lemma prepare_posix_heap:
  "prepare_posix w s env independent kwargs0 = (res, s1) \<Longrightarrow>
   heap s1 env = (if independent then heap s env
                  else AList.update ''JPY_PARENT_PID'' (str (os_getpid w)) (heap s env))"
  by (auto simp add: prepare_posix_def Let_def)

lemma prepare_win32_kwargs:
  "prepare_win32 w s env independent redirect_out cwd kwargs0 = (Inr (kwargs, ie), s1) \<Longrightarrow>
   k \<noteq> ''creationflags'' \<Longrightarrow> k \<noteq> ''close_fds'' \<Longrightarrow> k \<noteq> ''cwd'' \<Longrightarrow>
   map_of kwargs k = map_of kwargs0 k"
  by (auto simp add: prepare_win32_def Let_def AList.update_conv' or_no_window_other
      split: sum.splits option.splits prod.splits if_splits)

lemma prepare_win32_cwd:
  "prepare_win32 w s env independent redirect_out cwd kwargs0 = (Inr (kwargs, ie), s1) \<Longrightarrow>
   map_of kwargs0 ''cwd'' = Some (cwd_value cwd) \<Longrightarrow>
   map_of kwargs ''cwd'' = Some (cwd_value cwd)"
  by (auto simp add: prepare_win32_def Let_def AList.update_conv' or_no_window_other
      split: sum.splits option.splits prod.splits if_splits)

lemma prepare_win32_heap:
  "prepare_win32 w s env independent redirect_out cwd kwargs0 = (Inr (kwargs, ie), s1) \<Longrightarrow>
   \<exists>h. create_interrupt_event w = Inr h \<and> ie = VInt h \<and>
       map_of (heap s1 env) ''JPY_INTERRUPT_EVENT'' = Some (str h) \<and>
       map_of (heap s1 env) ''IPY_INTERRUPT_EVENT'' = Some (str h) \<and>
       (if independent then map_of (heap s1 env) ''JPY_PARENT_PID'' = map_of (heap s env) ''JPY_PARENT_PID''
        else \<exists>d. DuplicateHandle w = Inr d \<and> map_of (heap s1 env) ''JPY_PARENT_PID'' = Some (str d))"
  by (auto simp add: prepare_win32_def Let_def AList.update_conv'
      split: sum.splits option.splits prod.splits if_splits)

lemma collides_launch:
  "collides parameter_names kw \<Longrightarrow> collides launch_parameter_names kw"
  by (induction kw) (auto simp add: collides_def launch_parameter_names_def)

lemma launch_via_collides:
  "collides launch_parameter_names kw \<Longrightarrow>
   launch_via prim w s cmd stdin stdout stderr env independent cwd kw =
     (Inl (Raised TypeError ''got multiple values for keyword argument''), s)"
  by (simp add: launch_via_def)

lemma prepare_process_args_collides:
  "collides parameter_names kw \<Longrightarrow>
   prepare_process_args w s stdin stdout stderr env independent cwd kw =
     (Inl (Raised TypeError ''got multiple values for keyword argument''), s)"
  by (simp add: prepare_process_args_def)

lemma prepare_process_args_receivable:
  "prepare_process_args w s stdin stdout stderr env independent cwd kw = (Inr (kwargs, ie), s1) \<Longrightarrow>
   \<not> collides parameter_names kw"
  by (auto simp add: prepare_process_args_def)

lemma not_collides_map_of:
  "\<not> collides params kw \<Longrightarrow> k \<in> set params \<Longrightarrow> map_of kw k = None"
  by (induction kw) (auto simp add: collides_def)

lemma prepare_process_args_unfold:
  assumes "prepare_process_args w s stdin stdout stderr env independent cwd kw = (Inr (kwargs, ie), s1)"
  shows "\<exists>so se. resolved_outputs w stdout stderr so se \<and>
     (if sys_platform w = ''win32''
      then prepare_win32 w (base_state s env) (env_target s env) independent
             (endswith (sys_executable w) ''pythonw.exe'') cwd
             (main_kwargs s stdin so se env cwd kw) = (Inr (kwargs, ie), s1)
      else prepare_posix w (base_state s env) (env_target s env) independent
             (main_kwargs s stdin so se env cwd kw) = (Inr (kwargs, ie), s1))"
  using assms
  by (auto simp add: prepare_process_args_def Let_def environ_copy_def env_target_def
      base_state_def main_kwargs_def resolved_outputs_def
      split: sum.splits option.splits prod.splits if_splits)

lemma base_state_heap: "heap (base_state s env) (env_target s env) = env_initial s env"
  by (simp add: base_state_def env_target_def env_initial_def split: option.splits)

lemma main_kwargs_map_of:
  "map_of (main_kwargs s stdin so se env cwd kw) =
     (map_of kw)(''stdin'' \<mapsto> (if stdin = VNone then PIPE else stdin),
        ''stdout'' \<mapsto> so, ''stderr'' \<mapsto> se, ''cwd'' \<mapsto> cwd_value cwd,
        ''env'' \<mapsto> VDict (env_target s env))"
  by (simp add: main_kwargs_def AList.update_conv')

lemma invoke_eq:
  "invoke w s1 prim (map (expanduser w) cmd) kwargs =
     ((case os_spawn w (the_call prim w s1 cmd kwargs) of
         Inl e \<Rightarrow> Inl e
       | Inr p \<Rightarrow> Inr (p\<lparr>made_by := prim\<rparr>)),
      s1\<lparr>spawned := spawned s1 @ [the_call prim w s1 cmd kwargs]\<rparr>)"
  by (simp add: invoke_def the_call_def Let_def)

lemma handle_subprocess_exception_fst:
  "fst (handle_subprocess_exception w s exc cmd env kwargs) = Inl exc"
  by (simp add: handle_subprocess_exception_def split: prod.splits sum.splits)

lemma diagnostic_body_state:
  "heap (snd (diagnostic_body w s cmd env kwargs)) = heap s \<and>
   next_ref (snd (diagnostic_body w s cmd env kwargs)) = next_ref s \<and>
   os_environ (snd (diagnostic_body w s cmd env kwargs)) = os_environ s \<and>
   spawned (snd (diagnostic_body w s cmd env kwargs)) = spawned s"
  by (simp add: diagnostic_body_def Let_def split: option.splits)

lemma handle_subprocess_exception_state:
  "heap (snd (handle_subprocess_exception w s exc cmd env kwargs)) = heap s \<and>
   next_ref (snd (handle_subprocess_exception w s exc cmd env kwargs)) = next_ref s \<and>
   os_environ (snd (handle_subprocess_exception w s exc cmd env kwargs)) = os_environ s \<and>
   spawned (snd (handle_subprocess_exception w s exc cmd env kwargs)) = spawned s"
  using diagnostic_body_state [of w s cmd env kwargs]
  by (auto simp add: handle_subprocess_exception_def split: prod.splits sum.splits)

lemma finish_process_launch_state:
  "snd (finish_process_launch w s subprocess stdin interrupt_event) = s"
  by (simp add: finish_process_launch_def Let_def split: option.splits)

lemma launch_via_prepare_fails:
  "prepare_process_args w s stdin stdout stderr env independent cwd kw = (Inl e, s1) \<Longrightarrow>
   \<not> collides launch_parameter_names kw \<Longrightarrow>
   launch_via prim w s cmd stdin stdout stderr env independent cwd kw = (Inl e, s1)"
  by (simp add: launch_via_def)

lemma launch_via_raises:
  "prepare_process_args w s stdin stdout stderr env independent cwd kw = (Inr (kwargs, ie), s1) \<Longrightarrow>
   os_spawn w (the_call prim w s1 cmd kwargs) = Inl e \<Longrightarrow>
   \<not> collides launch_parameter_names kw \<Longrightarrow>
   fst (launch_via prim w s cmd stdin stdout stderr env independent cwd kw) = Inl e"
  by (simp add: launch_via_def invoke_eq handle_subprocess_exception_fst)

lemma launch_via_returns:
  "prepare_process_args w s stdin stdout stderr env independent cwd kw = (Inr (kwargs, ie), s1) \<Longrightarrow>
   os_spawn w (the_call prim w s1 cmd kwargs) = Inr p \<Longrightarrow>
   \<not> collides launch_parameter_names kw \<Longrightarrow>
   launch_via prim w s cmd stdin stdout stderr env independent cwd kw =
     finish_process_launch w (s1\<lparr>spawned := spawned s1 @ [the_call prim w s1 cmd kwargs]\<rparr>)
       (Some (p\<lparr>made_by := prim\<rparr>)) stdin ie"
  by (simp add: launch_via_def invoke_eq)

lemma launch_via_state:
  "prepare_process_args w s stdin stdout stderr env independent cwd kw = (Inr (kwargs, ie), s1) \<Longrightarrow>
   \<not> collides launch_parameter_names kw \<Longrightarrow>
   heap (snd (launch_via prim w s cmd stdin stdout stderr env independent cwd kw)) = heap s1 \<and>
   next_ref (snd (launch_via prim w s cmd stdin stdout stderr env independent cwd kw)) = next_ref s1 \<and>
   spawned (snd (launch_via prim w s cmd stdin stdout stderr env independent cwd kw)) =
     spawned s1 @ [the_call prim w s1 cmd kwargs]"
  by (cases "os_spawn w (the_call prim w s1 cmd kwargs)")
     (simp_all add: launch_via_def invoke_eq handle_subprocess_exception_state
        finish_process_launch_state)

lemma launch_via_heap:
  "heap (snd (launch_via prim w s cmd stdin stdout stderr env independent cwd kw)) =
   (if collides launch_parameter_names kw then heap s
    else heap (snd (prepare_process_args w s stdin stdout stderr env independent cwd kw))) \<and>
   next_ref (snd (launch_via prim w s cmd stdin stdout stderr env independent cwd kw)) =
   (if collides launch_parameter_names kw then next_ref s
    else next_ref (snd (prepare_process_args w s stdin stdout stderr env independent cwd kw)))"
proof (cases "collides launch_parameter_names kw")
  case True
  then show ?thesis by (simp add: launch_via_collides)
next
  case nb: False
  show ?thesis
  proof (cases "prepare_process_args w s stdin stdout stderr env independent cwd kw")
    case (Pair res s1)
    show ?thesis
    proof (cases res)
      case (Inl e)
      with Pair nb show ?thesis by (simp add: launch_via_prepare_fails)
    next
      case (Inr b)
      then obtain kwargs ie where "res = Inr (kwargs, ie)" by (cases b) simp
      with Pair nb show ?thesis
        using launch_via_state [of w s stdin stdout stderr env independent cwd kw kwargs ie s1 prim cmd]
        by simp
    qed
  qed
qed

lemma new_calls_launch_via:
  "new_calls s (snd (launch_via prim w s cmd stdin stdout stderr env independent cwd kw)) =
     (if collides launch_parameter_names kw then []
      else (case prepare_process_args w s stdin stdout stderr env independent cwd kw of
              (Inl e, s1) \<Rightarrow> []
            | (Inr (kwargs, ie), s1) \<Rightarrow> [the_call prim w s1 cmd kwargs]))"
proof (cases "collides launch_parameter_names kw")
  case True
  then show ?thesis by (simp add: launch_via_collides new_calls_def)
next
  case nb: False
  show ?thesis
  proof (cases "prepare_process_args w s stdin stdout stderr env independent cwd kw")
    case (Pair res s1)
    have rest: "spawned s1 = spawned s"
      using prepare_process_args_rest [of s w stdin stdout stderr env independent cwd kw] Pair
      by (simp add: same_rest_def)
    show ?thesis
    proof (cases res)
      case (Inl e)
      with Pair rest nb show ?thesis by (simp add: launch_via_prepare_fails new_calls_def)
    next
      case (Inr b)
      then obtain kwargs ie where "res = Inr (kwargs, ie)" by (cases b) simp
      with Pair rest nb show ?thesis
        using launch_via_state [of w s stdin stdout stderr env independent cwd kw kwargs ie s1 prim cmd]
        by (simp add: new_calls_def)
    qed
  qed
qed

text \<open>What a new call tells: the arguments were prepared, and the call is made of them.\<close>

lemma new_call_launch_via:
  assumes "c \<in> set (new_calls s (snd (launch_via prim w s cmd stdin stdout stderr env independent cwd kw)))"
  shows "\<exists>kwargs ie s1.
           prepare_process_args w s stdin stdout stderr env independent cwd kw = (Inr (kwargs, ie), s1) \<and>
           c = the_call prim w s1 cmd kwargs \<and> \<not> collides launch_parameter_names kw"
  using assms
  by (cases "prepare_process_args w s stdin stdout stderr env independent cwd kw")
     (auto simp add: new_calls_launch_via split: sum.splits if_splits)


lemma launch_is_via:
  assumes "launch \<in> {launch_kernel, async_launch_kernel}"
  shows "\<exists>prim. \<forall>s cmd stdin stdout stderr env independent cwd kw.
           launch w s cmd stdin stdout stderr env independent cwd kw =
           launch_via prim w s cmd stdin stdout stderr env independent cwd kw"
proof (cases "launch = launch_kernel")
  case True
  then show ?thesis by (auto simp add: launch_kernel_via)
next
  case False
  with assms have "launch = async_launch_kernel" by simp
  then show ?thesis by (auto simp add: async_launch_kernel_via)
qed

lemma finish_process_launch_result:
  "fst (finish_process_launch w s (Some p0) stdin ie) = Inr p \<Longrightarrow>
   (if stdin = VNone
    then \<exists>st. proc_stdin p0 = Some st \<and> proc_stdin p = Some (close_stdin (made_by p0) st)
    else proc_stdin p = proc_stdin p0) \<and>
   (if sys_platform w = ''win32'' then win32_interrupt_event p = Some ie
    else win32_interrupt_event p = win32_interrupt_event p0) \<and>
   pid p = pid p0"
  by (auto simp add: finish_process_launch_def Let_def split: option.splits if_splits)

lemma launch_via_Inr:
  assumes "fst (launch_via prim w s cmd stdin stdout stderr env independent cwd kw) = Inr p"
  shows "\<exists>kwargs ie s1 p0.
           prepare_process_args w s stdin stdout stderr env independent cwd kw = (Inr (kwargs, ie), s1) \<and>
           os_spawn w (the_call prim w s1 cmd kwargs) = Inr p0 \<and>
           fst (finish_process_launch w (s1\<lparr>spawned := spawned s1 @ [the_call prim w s1 cmd kwargs]\<rparr>)
                  (Some (p0\<lparr>made_by := prim\<rparr>)) stdin ie) = Inr p \<and>
           new_calls s (snd (launch_via prim w s cmd stdin stdout stderr env independent cwd kw)) =
             [the_call prim w s1 cmd kwargs]"
proof -
  have nb: "\<not> collides launch_parameter_names kw"
    using assms by (auto simp add: launch_via_collides)
  show ?thesis
  proof (cases "prepare_process_args w s stdin stdout stderr env independent cwd kw")
    case (Pair res s1)
    show ?thesis
    proof (cases res)
      case (Inl e)
      with Pair assms nb show ?thesis by (simp add: launch_via_prepare_fails)
    next
      case (Inr b)
      then obtain kwargs ie where b: "res = Inr (kwargs, ie)" by (cases b) simp
      with Pair have prep:
        "prepare_process_args w s stdin stdout stderr env independent cwd kw = (Inr (kwargs, ie), s1)"
        by simp
      show ?thesis
      proof (cases "os_spawn w (the_call prim w s1 cmd kwargs)")
        case (Inl e)
        with prep assms nb show ?thesis by (simp add: launch_via_raises)
      next
        case (Inr p0)
        have nc: "new_calls s (snd (launch_via prim w s cmd stdin stdout stderr env independent cwd kw)) =
               [the_call prim w s1 cmd kwargs]"
          using prep nb by (simp add: new_calls_launch_via)
        from prep assms Inr nb
        have "fst (finish_process_launch w (s1\<lparr>spawned := spawned s1 @ [the_call prim w s1 cmd kwargs]\<rparr>)
                    (Some (p0\<lparr>made_by := prim\<rparr>)) stdin ie) = Inr p"
          by (simp add: launch_via_returns)
        with prep Inr nc show ?thesis by blast
      qed
    qed
  qed
qed

lemma prepare_process_args_env_contents:
  assumes "prepare_process_args w s stdin stdout stderr env independent cwd kw = (Inr (kwargs, ie), s1)"
  shows "env_contents s1 kwargs = heap s1 (env_target s env)"
proof -
  from prepare_process_args_unfold [OF assms] obtain so se where
    br: "if sys_platform w = ''win32''
      then prepare_win32 w (base_state s env) (env_target s env) independent
             (endswith (sys_executable w) ''pythonw.exe'') cwd
             (main_kwargs s stdin so se env cwd kw) = (Inr (kwargs, ie), s1)
      else prepare_posix w (base_state s env) (env_target s env) independent
             (main_kwargs s stdin so se env cwd kw) = (Inr (kwargs, ie), s1)"
    by blast
  have "map_of kwargs ''env'' = Some (VDict (env_target s env))"
  proof (cases "sys_platform w = ''win32''")
    case True
    with br show ?thesis
      using prepare_win32_kwargs [where k = "''env''"] by (simp add: main_kwargs_map_of)
  next
    case False
    with br show ?thesis
      using prepare_posix_kwargs by (fastforce simp add: main_kwargs_map_of)
  qed
  then show ?thesis by (simp add: env_contents_def)
qed


lemma prepare_process_args_posix_env:
  assumes "prepare_process_args w s stdin stdout stderr env independent cwd kw = (Inr (kwargs, ie), s1)"
      and "sys_platform w \<noteq> ''win32''"
  shows "heap s1 (env_target s env) =
           (if independent then env_initial s env
            else AList.update ''JPY_PARENT_PID'' (str (os_getpid w)) (env_initial s env)) \<and>
         map_of kwargs ''start_new_session'' = Some (VBool True) \<and> ie = VNone"
proof -
  from prepare_process_args_unfold [OF assms(1)] assms(2) obtain so se where
    br: "prepare_posix w (base_state s env) (env_target s env) independent
             (main_kwargs s stdin so se env cwd kw) = (Inr (kwargs, ie), s1)"
    by auto
  from prepare_posix_heap [OF br] prepare_posix_kwargs [OF br] show ?thesis
    by (simp add: base_state_heap)
qed

lemma prepare_process_args_win32_env:
  assumes "prepare_process_args w s stdin stdout stderr env independent cwd kw = (Inr (kwargs, ie), s1)"
      and "sys_platform w = ''win32''"
  shows "\<exists>h. create_interrupt_event w = Inr h \<and> ie = VInt h \<and>
       map_of (heap s1 (env_target s env)) ''JPY_INTERRUPT_EVENT'' = Some (str h) \<and>
       map_of (heap s1 (env_target s env)) ''IPY_INTERRUPT_EVENT'' = Some (str h) \<and>
       (if independent
        then map_of (heap s1 (env_target s env)) ''JPY_PARENT_PID'' = map_of (env_initial s env) ''JPY_PARENT_PID''
        else \<exists>d. DuplicateHandle w = Inr d \<and>
                 map_of (heap s1 (env_target s env)) ''JPY_PARENT_PID'' = Some (str d))"
proof -
  from prepare_process_args_unfold [OF assms(1)] assms(2) obtain so se where
    br: "prepare_win32 w (base_state s env) (env_target s env) independent
             (endswith (sys_executable w) ''pythonw.exe'') cwd
             (main_kwargs s stdin so se env cwd kw) = (Inr (kwargs, ie), s1)"
    by auto
  from prepare_win32_heap [OF br] show ?thesis
    unfolding base_state_heap .
qed

subsection \<open>The concrete worlds, evaluated\<close>

lemma str_examples:
  "str 4242 = ''4242''" "str 812 = ''812''" "str 640 = ''640''"
  by (simp_all add: str_def str_nat.simps digit_char_def)

lemma endswith_examples:
  "\<not> endswith ''/usr/bin/python3'' ''pythonw.exe''"
  "endswith ''C:/Python/pythonw.exe'' ''pythonw.exe''"
  by (simp_all add: endswith_def)

lemma posix_world_sel:
  "sys_platform posix_world = ''linux''"
  "sys_executable posix_world = ''/usr/bin/python3''"
  "os_getpid posix_world = 4242"
  "os_defpath posix_world = ''/bin:/usr/bin''"
  "home_dir posix_world = ''/home/u''"
  "os_spawn posix_world c =
     Inr \<lparr>pid = 100, made_by = primitive c,
          proc_stdin = (if map_of (call_kwargs c) ''stdin'' = Some PIPE then Some Open else None),
          win32_interrupt_event = None\<rparr>"
  "logger_error posix_world m = None"
  by (simp_all add: posix_world_def)

lemma failing_world_sel:
  "sys_platform failing_world = ''linux''"
  "sys_executable failing_world = ''/usr/bin/python3''"
  "os_getpid failing_world = 4242"
  "os_defpath failing_world = ''/bin:/usr/bin''"
  "home_dir failing_world = ''/home/u''"
  "os_spawn failing_world c = Inl (Raised FileNotFoundError ''/does/not/exist'')"
  "logger_error failing_world m = None"
  by (simp_all add: failing_world_def posix_world_def)

lemma deaf_world_sel:
  "sys_platform deaf_world = ''linux''"
  "sys_executable deaf_world = ''/usr/bin/python3''"
  "os_getpid deaf_world = 4242"
  "os_defpath deaf_world = ''/bin:/usr/bin''"
  "home_dir deaf_world = ''/home/u''"
  "os_spawn deaf_world c = Inl (Raised FileNotFoundError ''/does/not/exist'')"
  "logger_error deaf_world m = Some (Raised RuntimeError ''sink closed'')"
  by (simp_all add: deaf_world_def failing_world_def posix_world_def)

lemma no_setsid_world_sel:
  "sys_platform no_setsid_world = ''linux''"
  "sys_executable no_setsid_world = ''/usr/bin/python3''"
  "os_getpid no_setsid_world = 4242"
  "os_defpath no_setsid_world = ''/bin:/usr/bin''"
  "home_dir no_setsid_world = ''/home/u''"
  "os_spawn no_setsid_world c =
     (if map_of (call_kwargs c) ''start_new_session'' = Some (VBool True)
      then Inl (Raised PermissionError ''setsid'')
      else Inr \<lparr>pid = 100, made_by = primitive c, proc_stdin = Some Open,
                      win32_interrupt_event = None\<rparr>)"
  "logger_error no_setsid_world m = None"
  by (simp_all add: no_setsid_world_def posix_world_def)

lemma win32_world_sel:
  "sys_platform win32_world = ''win32''"
  "sys_executable win32_world = ''C:/Python/pythonw.exe''"
  "os_getpid win32_world = 4242"
  "os_defpath win32_world = ''.;C:/bin''"
  "home_dir win32_world = ''C:/Users/u''"
  "open_devnull win32_world = Inr 7"
  "create_interrupt_event win32_world = Inr 812"
  "DuplicateHandle win32_world = Inr 640"
  "os_spawn win32_world c =
     Inr \<lparr>pid = 100, made_by = primitive c,
          proc_stdin = (if map_of (call_kwargs c) ''stdin'' = Some PIPE then Some Open else None),
          win32_interrupt_event = None\<rparr>"
  "logger_error win32_world m = None"
  by (simp_all add: win32_world_def)

lemma init_state_sel:
  "heap init_state 0 = [(''PATH'', ''/usr/local/bin''), (''HOME'', ''/home/u'')]"
  "heap init_state 2 = [(''LANG'', ''C'')]"
  "next_ref init_state = 3"
  "os_environ init_state = 0"
  "error_log init_state = []"
  "spawned init_state = []"
  by (simp_all add: init_state_def)

lemma kernel_state_sel:
  "heap kernel_state 0 = [(''PATH'', ''/usr/local/bin''), (''JPY_PARENT_PID'', ''77'')]"
  "next_ref kernel_state = 3"
  "os_environ kernel_state = 0"
  "error_log kernel_state = []"
  "spawned kernel_state = []"
  by (simp_all add: kernel_state_def)

lemmas prepare_eval =
  prepare_process_args_def collides_def parameter_names_def prepare_posix_def prepare_win32_def or_no_window_def environ_copy_def
  env_setitem_def PIPE_def cwd_value_def CREATE_NO_WINDOW_def CREATE_NEW_PROCESS_GROUP_def
  str_examples endswith_examples

lemmas launch_eval =
  launch_kernel_def async_launch_kernel_def collides_def launch_parameter_names_def
  parameter_names_def invoke_def handle_subprocess_exception_def
  diagnostic_body_def finish_process_launch_def close_stdin_def writer_close_def expanduser_def
  env_contents_def PIPE_def Let_def

text \<open>A launch on the POSIX host with the caller's mapping, not independent.\<close>

lemma prepare_posix_example:
  "prepare_process_args posix_world init_state VNone VNone VNone (Some 2) False None [] =
     (Inr ([(''stdin'', VInt (- 1)), (''stdout'', VNone), (''stderr'', VNone),
            (''cwd'', VNone), (''env'', VDict 2), (''start_new_session'', VBool True)], VNone),
      init_state\<lparr>heap := (heap init_state)(2 := [(''LANG'', ''C''), (''JPY_PARENT_PID'', ''4242'')])\<rparr>)"
  by (simp add: prepare_eval posix_world_sel init_state_sel)

lemma launch_posix_example:
  "launch_kernel posix_world init_state [''~/bin/kernel'', ''-f''] VNone VNone VNone (Some 2) False None [] =
     (Inr \<lparr>pid = 100, made_by = Popen, proc_stdin = Some Closed, win32_interrupt_event = None\<rparr>,
      init_state\<lparr>heap := (heap init_state)(2 := [(''LANG'', ''C''), (''JPY_PARENT_PID'', ''4242'')]),
        spawned := [\<lparr>primitive = Popen, call_cmd = [''/home/u/bin/kernel'', ''-f''],
             call_kwargs = [(''stdin'', VInt (- 1)), (''stdout'', VNone), (''stderr'', VNone),
                            (''cwd'', VNone), (''env'', VDict 2), (''start_new_session'', VBool True)],
             call_env = [(''LANG'', ''C''), (''JPY_PARENT_PID'', ''4242'')]\<rparr>]\<rparr>)"
  by (simp add: launch_eval prepare_posix_example posix_world_sel init_state_sel)

lemma new_calls_posix_example:
  "new_calls init_state (snd (launch_kernel posix_world init_state [''~/bin/kernel'', ''-f'']
      VNone VNone VNone (Some 2) False None [])) =
     [\<lparr>primitive = Popen, call_cmd = [''/home/u/bin/kernel'', ''-f''],
       call_kwargs = [(''stdin'', VInt (- 1)), (''stdout'', VNone), (''stderr'', VNone),
                      (''cwd'', VNone), (''env'', VDict 2), (''start_new_session'', VBool True)],
       call_env = [(''LANG'', ''C''), (''JPY_PARENT_PID'', ''4242'')]\<rparr>]"
  by (simp add: launch_posix_example new_calls_def init_state_sel)

text \<open>The executable does not exist; the caller passes no mapping, or its own.\<close>

lemma prepare_failing_example:
  "prepare_process_args failing_world init_state VNone VNone VNone None False None [] =
     (Inr ([(''stdin'', VInt (- 1)), (''stdout'', VNone), (''stderr'', VNone),
            (''cwd'', VNone), (''env'', VDict 3), (''start_new_session'', VBool True)], VNone),
      init_state\<lparr>heap := (heap init_state)
          (3 := [(''PATH'', ''/usr/local/bin''), (''HOME'', ''/home/u''), (''JPY_PARENT_PID'', ''4242'')]),
        next_ref := 4\<rparr>)"
  by (simp add: prepare_eval failing_world_sel init_state_sel)

lemma launch_failing_example:
  "launch_kernel failing_world init_state [''/does/not/exist''] VNone VNone VNone None False None [] =
     (Inl (Raised FileNotFoundError ''/does/not/exist''),
      init_state\<lparr>heap := (heap init_state)
          (3 := [(''PATH'', ''/usr/local/bin''), (''HOME'', ''/home/u''), (''JPY_PARENT_PID'', ''4242'')]),
        next_ref := 4,
        spawned := [\<lparr>primitive = Popen, call_cmd = [''/does/not/exist''],
             call_kwargs = [(''stdin'', VInt (- 1)), (''stdout'', VNone), (''stderr'', VNone),
                            (''cwd'', VNone), (''env'', VDict 3), (''start_new_session'', VBool True)],
             call_env = [(''PATH'', ''/usr/local/bin''), (''HOME'', ''/home/u''),
                         (''JPY_PARENT_PID'', ''4242'')]\<rparr>]\<rparr>)"
  by (simp add: launch_eval prepare_failing_example failing_world_sel init_state_sel)

lemma prepare_failing_own_example:
  "prepare_process_args failing_world init_state VNone VNone VNone (Some 2) False None [] =
     (Inr ([(''stdin'', VInt (- 1)), (''stdout'', VNone), (''stderr'', VNone),
            (''cwd'', VNone), (''env'', VDict 2), (''start_new_session'', VBool True)], VNone),
      init_state\<lparr>heap := (heap init_state)(2 := [(''LANG'', ''C''), (''JPY_PARENT_PID'', ''4242'')])\<rparr>)"
  by (simp add: prepare_eval failing_world_sel init_state_sel)

lemma launch_failing_own_example:
  "launch_kernel failing_world init_state [''/does/not/exist''] VNone VNone VNone (Some 2) False None [] =
     (Inl (Raised FileNotFoundError ''/does/not/exist''),
      init_state\<lparr>heap := (heap init_state)(2 := [(''LANG'', ''C''), (''JPY_PARENT_PID'', ''4242'')]),
        spawned := [\<lparr>primitive = Popen, call_cmd = [''/does/not/exist''],
             call_kwargs = [(''stdin'', VInt (- 1)), (''stdout'', VNone), (''stderr'', VNone),
                            (''cwd'', VNone), (''env'', VDict 2), (''start_new_session'', VBool True)],
             call_env = [(''LANG'', ''C''), (''JPY_PARENT_PID'', ''4242'')]\<rparr>],
        error_log := [\<lparr>msg_cmd = [''/does/not/exist''], msg_path = ''/bin:/usr/bin'',
             msg_kwargs = [(''stdin'', VInt (- 1)), (''stdout'', VNone), (''stderr'', VNone),
                           (''cwd'', VNone), (''start_new_session'', VBool True)]\<rparr>]\<rparr>)"
  by (simp add: launch_eval prepare_failing_own_example failing_world_sel init_state_sel)

text \<open>The same with a log sink that raises.\<close>

lemma prepare_deaf_example:
  "prepare_process_args deaf_world init_state VNone VNone VNone (Some 2) False None [] =
     (Inr ([(''stdin'', VInt (- 1)), (''stdout'', VNone), (''stderr'', VNone),
            (''cwd'', VNone), (''env'', VDict 2), (''start_new_session'', VBool True)], VNone),
      init_state\<lparr>heap := (heap init_state)(2 := [(''LANG'', ''C''), (''JPY_PARENT_PID'', ''4242'')])\<rparr>)"
  by (simp add: prepare_eval deaf_world_sel init_state_sel)

lemma launch_deaf_example:
  "launch_kernel deaf_world init_state [''/does/not/exist''] VNone VNone VNone (Some 2) False None [] =
     (Inl (Raised FileNotFoundError ''/does/not/exist''),
      init_state\<lparr>heap := (heap init_state)(2 := [(''LANG'', ''C''), (''JPY_PARENT_PID'', ''4242'')]),
        spawned := [\<lparr>primitive = Popen, call_cmd = [''/does/not/exist''],
             call_kwargs = [(''stdin'', VInt (- 1)), (''stdout'', VNone), (''stderr'', VNone),
                            (''cwd'', VNone), (''env'', VDict 2), (''start_new_session'', VBool True)],
             call_env = [(''LANG'', ''C''), (''JPY_PARENT_PID'', ''4242'')]\<rparr>]\<rparr>)"
  by (simp add: launch_eval prepare_deaf_example deaf_world_sel init_state_sel)

text \<open>A host that refuses new sessions.\<close>

lemma prepare_no_setsid_example:
  "prepare_process_args no_setsid_world init_state VNone VNone VNone None False None [] =
     (Inr ([(''stdin'', VInt (- 1)), (''stdout'', VNone), (''stderr'', VNone),
            (''cwd'', VNone), (''env'', VDict 3), (''start_new_session'', VBool True)], VNone),
      init_state\<lparr>heap := (heap init_state)
          (3 := [(''PATH'', ''/usr/local/bin''), (''HOME'', ''/home/u''), (''JPY_PARENT_PID'', ''4242'')]),
        next_ref := 4\<rparr>)"
  by (simp add: prepare_eval no_setsid_world_sel init_state_sel)

lemma launch_no_setsid_example:
  "launch_kernel no_setsid_world init_state [''/usr/bin/kernel''] VNone VNone VNone None False None [] =
     (Inl (Raised PermissionError ''setsid''),
      init_state\<lparr>heap := (heap init_state)
          (3 := [(''PATH'', ''/usr/local/bin''), (''HOME'', ''/home/u''), (''JPY_PARENT_PID'', ''4242'')]),
        next_ref := 4,
        spawned := [\<lparr>primitive = Popen, call_cmd = [''/usr/bin/kernel''],
             call_kwargs = [(''stdin'', VInt (- 1)), (''stdout'', VNone), (''stderr'', VNone),
                            (''cwd'', VNone), (''env'', VDict 3), (''start_new_session'', VBool True)],
             call_env = [(''PATH'', ''/usr/local/bin''), (''HOME'', ''/home/u''),
                         (''JPY_PARENT_PID'', ''4242'')]\<rparr>]\<rparr>)"
  by (simp add: launch_eval prepare_no_setsid_example no_setsid_world_sel init_state_sel)

text \<open>An independent launch from a launcher that is itself a kernel.\<close>

lemma prepare_kernel_example:
  "prepare_process_args posix_world kernel_state VNone VNone VNone None True None [] =
     (Inr ([(''stdin'', VInt (- 1)), (''stdout'', VNone), (''stderr'', VNone),
            (''cwd'', VNone), (''env'', VDict 3), (''start_new_session'', VBool True)], VNone),
      kernel_state\<lparr>heap := (heap kernel_state)
          (3 := [(''PATH'', ''/usr/local/bin''), (''JPY_PARENT_PID'', ''77'')]),
        next_ref := 4\<rparr>)"
  by (simp add: prepare_eval posix_world_sel kernel_state_sel)

lemma launch_kernel_example:
  "launch_kernel posix_world kernel_state [''/usr/bin/kernel''] VNone VNone VNone None True None [] =
     (Inr \<lparr>pid = 100, made_by = Popen, proc_stdin = Some Closed, win32_interrupt_event = None\<rparr>,
      kernel_state\<lparr>heap := (heap kernel_state)
          (3 := [(''PATH'', ''/usr/local/bin''), (''JPY_PARENT_PID'', ''77'')]),
        next_ref := 4,
        spawned := [\<lparr>primitive = Popen, call_cmd = [''/usr/bin/kernel''],
             call_kwargs = [(''stdin'', VInt (- 1)), (''stdout'', VNone), (''stderr'', VNone),
                            (''cwd'', VNone), (''env'', VDict 3), (''start_new_session'', VBool True)],
             call_env = [(''PATH'', ''/usr/local/bin''), (''JPY_PARENT_PID'', ''77'')]\<rparr>]\<rparr>)"
  by (simp add: launch_eval prepare_kernel_example posix_world_sel kernel_state_sel)

text \<open>A launch on the Windows host, under \<^verbatim>\<open>pythonw.exe\<close>.\<close>

lemma prepare_win32_example:
  "prepare_process_args win32_world init_state VNone VNone VNone (Some 2) False None [] =
     (Inr ([(''stdin'', VInt (- 1)), (''stdout'', VFile 7), (''stderr'', VFile 7),
            (''cwd'', VNone), (''env'', VDict 2), (''creationflags'', VInt 134217728),
            (''close_fds'', VBool False)], VInt 812),
      init_state\<lparr>heap := (heap init_state)
          (2 := [(''LANG'', ''C''), (''JPY_INTERRUPT_EVENT'', ''812''),
                 (''IPY_INTERRUPT_EVENT'', ''812''), (''JPY_PARENT_PID'', ''640'')])\<rparr>)"
  by (simp add: prepare_eval win32_world_sel init_state_sel)

lemma launch_win32_example:
  "launch_kernel win32_world init_state [''~/kernel.exe''] VNone VNone VNone (Some 2) False None [] =
     (Inr \<lparr>pid = 100, made_by = Popen, proc_stdin = Some Closed, win32_interrupt_event = Some (VInt 812)\<rparr>,
      init_state\<lparr>heap := (heap init_state)
          (2 := [(''LANG'', ''C''), (''JPY_INTERRUPT_EVENT'', ''812''),
                 (''IPY_INTERRUPT_EVENT'', ''812''), (''JPY_PARENT_PID'', ''640'')]),
        spawned := [\<lparr>primitive = Popen, call_cmd = [''C:/Users/u/kernel.exe''],
             call_kwargs = [(''stdin'', VInt (- 1)), (''stdout'', VFile 7), (''stderr'', VFile 7),
                            (''cwd'', VNone), (''env'', VDict 2), (''creationflags'', VInt 134217728),
                            (''close_fds'', VBool False)],
             call_env = [(''LANG'', ''C''), (''JPY_INTERRUPT_EVENT'', ''812''),
                         (''IPY_INTERRUPT_EVENT'', ''812''), (''JPY_PARENT_PID'', ''640'')]\<rparr>]\<rparr>)"
  by (simp add: launch_eval prepare_win32_example win32_world_sel init_state_sel)


text \<open>A bag of extra options that names an explicit parameter, and one that does not.\<close>

lemma prepare_colliding_example:
  "prepare_process_args posix_world init_state (VInt 0) VNone VNone (Some 2) True (Some ''/srv'')
       [(''stdin'', VInt 9), (''bufsize'', VInt 0)] =
     (Inl (Raised TypeError ''got multiple values for keyword argument''), init_state)"
  by (simp add: prepare_eval posix_world_sel init_state_sel)

lemma prepare_bag_example:
  "prepare_process_args posix_world init_state (VInt 0) VNone VNone (Some 2) True (Some ''/srv'')
       [(''bufsize'', VInt 0)] =
     (Inr ([(''bufsize'', VInt 0), (''stdin'', VInt 0), (''stdout'', VNone), (''stderr'', VNone),
            (''cwd'', VStr ''/srv''), (''env'', VDict 2), (''start_new_session'', VBool True)], VNone),
      init_state)"
  by (simp add: prepare_eval posix_world_sel init_state_sel)


section \<open>The claims\<close>




text \<open>
  Claim C2 (every failed spawn is logged exactly once, with the PATH of the child's
  environment or the default PATH): the code misses it when the caller passes no
  environment. \<^verbatim>\<open>launch_kernel\<close> hands its own parameter \<^verbatim>\<open>env\<close>, still \<^verbatim>\<open>None\<close>, to
  \<^verbatim>\<open>_handle_subprocess_exception\<close>; \<^verbatim>\<open>env.get\<close> raises inside the \<^verbatim>\<open>try\<close> block and
  the \<^verbatim>\<open>finally\<close> clause raises the spawn error, so nothing reaches the log sink. With a
  mapping passed, the same failure is logged once, with the default PATH and without the
  \<^verbatim>\<open>env\<close> key.
\<close>

theorem spawn_failure_without_env_not_logged:
  "fst (launch_kernel failing_world init_state [''/does/not/exist''] VNone VNone VNone None False None [])
     = Inl (Raised FileNotFoundError ''/does/not/exist'') \<and>
   error_log (snd (launch_kernel failing_world init_state [''/does/not/exist'']
                     VNone VNone VNone None False None [])) = [] \<and>
   error_log (snd (launch_kernel failing_world init_state [''/does/not/exist'']
                     VNone VNone VNone (Some 2) False None [])) =
     [\<lparr>msg_cmd = [''/does/not/exist''], msg_path = ''/bin:/usr/bin'',
       msg_kwargs = [(''stdin'', VInt (- 1)), (''stdout'', VNone), (''stderr'', VNone),
                     (''cwd'', VNone), (''start_new_session'', VBool True)]\<rparr>]"
  by (simp add: launch_failing_example launch_failing_own_example init_state_sel)

text \<open>
  Claim C3 as stated (a failure to create the new session is not fatal, the launch falls
  back) fails: the launcher has no fallback. On a host whose spawn primitive raises
  whenever a new session is requested, and would succeed without the request, the launch
  invokes the primitive once and raises that error.
\<close>

theorem session_failure_propagates_counterexample:
  "fst (launch_kernel no_setsid_world init_state [''/usr/bin/kernel''] VNone VNone VNone None False None [])
     = Inl (Raised PermissionError ''setsid'') \<and>
   length (new_calls init_state (snd (launch_kernel no_setsid_world init_state [''/usr/bin/kernel'']
                     VNone VNone VNone None False None []))) = 1 \<and>
   os_spawn no_setsid_world
     \<lparr>primitive = Popen, call_cmd = [''/usr/bin/kernel''],
      call_kwargs = [(''stdin'', VInt (- 1)), (''stdout'', VNone), (''stderr'', VNone),
                     (''cwd'', VNone), (''env'', VDict 3)],
      call_env = [(''PATH'', ''/usr/local/bin''), (''HOME'', ''/home/u''),
                  (''JPY_PARENT_PID'', ''4242'')]\<rparr>
     = Inr \<lparr>pid = 100, made_by = Popen, proc_stdin = Some Open, win32_interrupt_event = None\<rparr>"
  by (simp add: launch_no_setsid_example new_calls_def init_state_sel no_setsid_world_sel)

text \<open>
  Claim C3, amended: off Windows the launcher invokes the spawn primitive at most once,
  always with \<^verbatim>\<open>start_new_session = True\<close>, and whatever that invocation raises is what
  the launch raises.
\<close>

theorem posix_spawn_error_propagates:
  assumes "launch \<in> {launch_kernel, async_launch_kernel}"
      and "sys_platform w \<noteq> ''win32''"
  shows "length (new_calls s (snd (launch w s cmd stdin stdout stderr env independent cwd kw))) \<le> 1 \<and>
         (\<forall>c \<in> set (new_calls s (snd (launch w s cmd stdin stdout stderr env independent cwd kw))).
            map_of (call_kwargs c) ''start_new_session'' = Some (VBool True) \<and>
            (\<forall>e. os_spawn w c = Inl e \<longrightarrow>
                 fst (launch w s cmd stdin stdout stderr env independent cwd kw) = Inl e))"
proof -
  from launch_is_via [OF assms(1)] obtain prim where
    via: "launch w s cmd stdin stdout stderr env independent cwd kw =
          launch_via prim w s cmd stdin stdout stderr env independent cwd kw"
    by blast
  have len: "length (new_calls s (snd (launch_via prim w s cmd stdin stdout stderr env independent cwd kw))) \<le> 1"
    by (simp add: new_calls_launch_via split: prod.splits sum.splits)
  have each: "map_of (call_kwargs c) ''start_new_session'' = Some (VBool True) \<and>
            (\<forall>e. os_spawn w c = Inl e \<longrightarrow>
                 fst (launch_via prim w s cmd stdin stdout stderr env independent cwd kw) = Inl e)"
    if "c \<in> set (new_calls s (snd (launch_via prim w s cmd stdin stdout stderr env independent cwd kw)))"
    for c
  proof -
    from new_call_launch_via [OF that] obtain kwargs ie s1 where
      prep: "prepare_process_args w s stdin stdout stderr env independent cwd kw = (Inr (kwargs, ie), s1)"
      and c: "c = the_call prim w s1 cmd kwargs"
      and nb: "\<not> collides launch_parameter_names kw"
      by blast
    from prepare_process_args_posix_env [OF prep assms(2)]
    have "map_of (call_kwargs c) ''start_new_session'' = Some (VBool True)"
      by (simp add: c the_call_def)
    moreover from launch_via_raises [OF prep _ nb]
    have "\<forall>e. os_spawn w c = Inl e \<longrightarrow>
                 fst (launch_via prim w s cmd stdin stdout stderr env independent cwd kw) = Inl e"
      by (simp add: c)
    ultimately show ?thesis by blast
  qed
  from len each show ?thesis unfolding via by blast
qed

text \<open>
  Witness for C3: the failing POSIX host, with the caller's mapping.
\<close>

theorem posix_spawn_error_propagates_witness:
  "map_of (call_kwargs (hd (new_calls init_state (snd (launch_kernel failing_world init_state
       [''/does/not/exist''] VNone VNone VNone (Some 2) False None []))))) ''start_new_session''
     = Some (VBool True) \<and>
   fst (launch_kernel failing_world init_state [''/does/not/exist''] VNone VNone VNone (Some 2)
          False None []) = Inl (Raised FileNotFoundError ''/does/not/exist'')"
proof -
  let ?L = "launch_kernel failing_world init_state [''/does/not/exist''] VNone VNone VNone (Some 2)
          False None []"
  have m: "launch_kernel \<in> {launch_kernel, async_launch_kernel}" by simp
  have p: "sys_platform failing_world \<noteq> ''win32''" by (simp add: failing_world_sel)
  have c: "hd (new_calls init_state (snd ?L)) \<in> set (new_calls init_state (snd ?L))"
    by (simp add: launch_failing_own_example new_calls_def init_state_sel)
  have e: "os_spawn failing_world (hd (new_calls init_state (snd ?L))) =
             Inl (Raised FileNotFoundError ''/does/not/exist'')"
    by (simp add: failing_world_sel)
  from posix_spawn_error_propagates [OF m p, of init_state "[''/does/not/exist'']" VNone VNone VNone
      "Some 2" False None "[]"] c e
  show ?thesis by blast
qed

text \<open>
  Claim C4 as stated fails in its second half (with \<^verbatim>\<open>independent = True\<close> on POSIX the
  key \<^verbatim>\<open>JPY_PARENT_PID\<close> is absent from the spawn environment): the launcher only refrains
  from setting the key, it never removes it. A launcher that is itself a kernel has the key
  in \<^verbatim>\<open>os.environ\<close>, and an independent launch with no mapping passes it on.
\<close>

theorem independent_inherits_parent_pid_counterexample:
  "map_of (call_env (hd (new_calls kernel_state (snd (launch_kernel posix_world kernel_state
       [''/usr/bin/kernel''] VNone VNone VNone None True None []))))) ''JPY_PARENT_PID'' = Some ''77''"
  by (simp add: launch_kernel_example new_calls_def kernel_state_sel)

text \<open>
  Claim C4, amended: in the environment handed to the spawn primitive, without
  \<^verbatim>\<open>independent\<close> the key \<^verbatim>\<open>JPY_PARENT_PID\<close> holds \<^verbatim>\<open>str(os.getpid())\<close> on POSIX and
  the string of the duplicated handle on Windows; with \<^verbatim>\<open>independent\<close> on POSIX the
  launcher neither sets nor removes the key: it is what the initial environment (the
  caller's mapping, or \<^verbatim>\<open>os.environ\<close>) had, absent exactly when absent there.
\<close>

theorem parent_pid_in_spawn_env:
  assumes "launch \<in> {launch_kernel, async_launch_kernel}"
      and "c \<in> set (new_calls s (snd (launch w s cmd stdin stdout stderr env independent cwd kw)))"
  shows "if independent
         then sys_platform w \<noteq> ''win32'' \<longrightarrow>
              map_of (call_env c) ''JPY_PARENT_PID'' = map_of (env_initial s env) ''JPY_PARENT_PID''
         else if sys_platform w = ''win32''
              then \<exists>handle. DuplicateHandle w = Inr handle \<and>
                     map_of (call_env c) ''JPY_PARENT_PID'' = Some (str handle)
              else map_of (call_env c) ''JPY_PARENT_PID'' = Some (str (os_getpid w))"
proof -
  from launch_is_via [OF assms(1)] obtain prim where
    via: "launch w s cmd stdin stdout stderr env independent cwd kw =
          launch_via prim w s cmd stdin stdout stderr env independent cwd kw"
    by blast
  from assms(2) new_call_launch_via [of c s prim w cmd stdin stdout stderr env independent cwd kw]
  obtain kwargs ie s1 where
    prep: "prepare_process_args w s stdin stdout stderr env independent cwd kw = (Inr (kwargs, ie), s1)"
    and c: "c = the_call prim w s1 cmd kwargs"
    unfolding via by blast
  have env: "call_env c = heap s1 (env_target s env)"
    using prepare_process_args_env_contents [OF prep] by (simp add: c the_call_def)
  show ?thesis
  proof (cases "sys_platform w = ''win32''")
    case True
    from prepare_process_args_win32_env [OF prep True] show ?thesis
      by (auto simp add: env True)
  next
    case False
    from prepare_process_args_posix_env [OF prep False] show ?thesis
      by (simp add: env False AList.update_conv')
  qed
qed

text \<open>
  Witness for C4: the POSIX host with process identifier 4242.
\<close>

theorem parent_pid_in_spawn_env_witness:
  "map_of (call_env (hd (new_calls init_state (snd (launch_kernel posix_world init_state
       [''~/bin/kernel'', ''-f''] VNone VNone VNone (Some 2) False None []))))) ''JPY_PARENT_PID''
     = Some ''4242''"
proof -
  let ?L = "launch_kernel posix_world init_state [''~/bin/kernel'', ''-f''] VNone VNone VNone (Some 2)
          False None []"
  have m: "launch_kernel \<in> {launch_kernel, async_launch_kernel}" by simp
  have c: "hd (new_calls init_state (snd ?L)) \<in> set (new_calls init_state (snd ?L))"
    by (simp add: new_calls_posix_example)
  note t = parent_pid_in_spawn_env [OF m, where c = "hd (new_calls init_state (snd ?L))"
      and s = init_state and w = posix_world and cmd = "[''~/bin/kernel'', ''-f'']" and stdin = VNone
      and stdout = VNone and stderr = VNone and env = "Some 2" and independent = False
      and cwd = None and kw = "[]"]
  from t c have "map_of (call_env (hd (new_calls init_state (snd ?L)))) ''JPY_PARENT_PID''
      = Some (str (os_getpid posix_world))"
    by (simp add: posix_world_sel)
  then show ?thesis by (simp add: posix_world_sel str_examples)
qed

text \<open>
  Claim C5: on Windows, whatever the independence flag, the environment of every spawn call
  holds \<^verbatim>\<open>JPY_INTERRUPT_EVENT\<close> and \<^verbatim>\<open>IPY_INTERRUPT_EVENT\<close> with the same value, the
  string of the handle \<open>h\<close> that \<^verbatim>\<open>create_interrupt_event()\<close> returned; and the process a
  successful launch returns carries that handle as \<^verbatim>\<open>win32_interrupt_event\<close>.
\<close>

theorem win32_interrupt_event_injected:
  assumes "launch \<in> {launch_kernel, async_launch_kernel}"
      and "sys_platform w = ''win32''"
  shows "(\<forall>c \<in> set (new_calls s (snd (launch w s cmd stdin stdout stderr env independent cwd kw))).
            \<exists>h. create_interrupt_event w = Inr h \<and>
                map_of (call_env c) ''JPY_INTERRUPT_EVENT'' = Some (str h) \<and>
                map_of (call_env c) ''IPY_INTERRUPT_EVENT'' = Some (str h)) \<and>
         (\<forall>p. fst (launch w s cmd stdin stdout stderr env independent cwd kw) = Inr p \<longrightarrow>
            (\<exists>h c. create_interrupt_event w = Inr h \<and>
                new_calls s (snd (launch w s cmd stdin stdout stderr env independent cwd kw)) = [c] \<and>
                map_of (call_env c) ''JPY_INTERRUPT_EVENT'' = Some (str h) \<and>
                win32_interrupt_event p = Some (VInt h)))"
proof -
  from launch_is_via [OF assms(1)] obtain prim where
    via: "launch w s cmd stdin stdout stderr env independent cwd kw =
          launch_via prim w s cmd stdin stdout stderr env independent cwd kw"
    by blast
  let ?L = "launch_via prim w s cmd stdin stdout stderr env independent cwd kw"
  have each: "\<exists>h. create_interrupt_event w = Inr h \<and>
                map_of (call_env c) ''JPY_INTERRUPT_EVENT'' = Some (str h) \<and>
                map_of (call_env c) ''IPY_INTERRUPT_EVENT'' = Some (str h)"
    if "c \<in> set (new_calls s (snd ?L))" for c
  proof -
    from new_call_launch_via [OF that] obtain kwargs ie s1 where
      prep: "prepare_process_args w s stdin stdout stderr env independent cwd kw = (Inr (kwargs, ie), s1)"
      and c: "c = the_call prim w s1 cmd kwargs"
      by blast
    have env: "call_env c = heap s1 (env_target s env)"
      using prepare_process_args_env_contents [OF prep] by (simp add: c the_call_def)
    from prepare_process_args_win32_env [OF prep assms(2)] show ?thesis
      unfolding env by blast
  qed
  have ret: "\<exists>h c. create_interrupt_event w = Inr h \<and> new_calls s (snd ?L) = [c] \<and>
                map_of (call_env c) ''JPY_INTERRUPT_EVENT'' = Some (str h) \<and>
                win32_interrupt_event p = Some (VInt h)"
    if "fst ?L = Inr p" for p
  proof -
    from launch_via_Inr [OF that] obtain kwargs ie s1 p0 where
      prep: "prepare_process_args w s stdin stdout stderr env independent cwd kw = (Inr (kwargs, ie), s1)"
      and fin: "fst (finish_process_launch w (s1\<lparr>spawned := spawned s1 @ [the_call prim w s1 cmd kwargs]\<rparr>)
                  (Some (p0\<lparr>made_by := prim\<rparr>)) stdin ie) = Inr p"
      and nc: "new_calls s (snd ?L) = [the_call prim w s1 cmd kwargs]"
      by blast
    have env: "call_env (the_call prim w s1 cmd kwargs) = heap s1 (env_target s env)"
      using prepare_process_args_env_contents [OF prep] by (simp add: the_call_def)
    from prepare_process_args_win32_env [OF prep assms(2)] obtain h where
      h: "create_interrupt_event w = Inr h" "ie = VInt h"
         "map_of (heap s1 (env_target s env)) ''JPY_INTERRUPT_EVENT'' = Some (str h)"
      by blast
    from finish_process_launch_result [OF fin] assms(2) h(2)
    have "win32_interrupt_event p = Some (VInt h)" by simp
    with h nc env show ?thesis by simp
  qed
  from each ret show ?thesis unfolding via by blast
qed

text \<open>
  Witness for C5: the Windows host, where the interrupt event is the handle 812.
\<close>

theorem win32_interrupt_event_injected_witness:
  "map_of (call_env (hd (new_calls init_state (snd (launch_kernel win32_world init_state
       [''~/kernel.exe''] VNone VNone VNone (Some 2) False None []))))) ''JPY_INTERRUPT_EVENT''
     = Some ''812'' \<and>
   map_of (call_env (hd (new_calls init_state (snd (launch_kernel win32_world init_state
       [''~/kernel.exe''] VNone VNone VNone (Some 2) False None []))))) ''IPY_INTERRUPT_EVENT''
     = Some ''812'' \<and>
   (\<exists>p. fst (launch_kernel win32_world init_state [''~/kernel.exe''] VNone VNone VNone (Some 2)
               False None []) = Inr p \<and>
        win32_interrupt_event p = Some (VInt 812))"
proof -
  let ?L = "launch_kernel win32_world init_state [''~/kernel.exe''] VNone VNone VNone (Some 2)
          False None []"
  have m: "launch_kernel \<in> {launch_kernel, async_launch_kernel}" by simp
  have p: "sys_platform win32_world = ''win32''" by (simp add: win32_world_sel)
  have c: "hd (new_calls init_state (snd ?L)) \<in> set (new_calls init_state (snd ?L))"
    by (simp add: launch_win32_example new_calls_def init_state_sel)
  have r: "fst ?L = Inr \<lparr>pid = 100, made_by = Popen, proc_stdin = Some Closed, win32_interrupt_event = Some (VInt 812)\<rparr>"
    by (simp add: launch_win32_example)
  note t = win32_interrupt_event_injected [OF m p, of init_state "[''~/kernel.exe'']" VNone VNone VNone
      "Some 2" False None "[]"]
  from t c have "\<exists>h. create_interrupt_event win32_world = Inr h \<and>
      map_of (call_env (hd (new_calls init_state (snd ?L)))) ''JPY_INTERRUPT_EVENT'' = Some (str h) \<and>
      map_of (call_env (hd (new_calls init_state (snd ?L)))) ''IPY_INTERRUPT_EVENT'' = Some (str h)"
    by blast
  then have a: "map_of (call_env (hd (new_calls init_state (snd ?L)))) ''JPY_INTERRUPT_EVENT'' = Some ''812'' \<and>
      map_of (call_env (hd (new_calls init_state (snd ?L)))) ''IPY_INTERRUPT_EVENT'' = Some ''812''"
    by (auto simp add: win32_world_sel str_examples)
  from t r have "\<exists>h. create_interrupt_event win32_world = Inr h \<and>
      win32_interrupt_event \<lparr>pid = 100, made_by = Popen, proc_stdin = Some Closed,
         win32_interrupt_event = Some (VInt 812)\<rparr> = Some (VInt h)"
    by blast
  with r have b: "\<exists>p. fst ?L = Inr p \<and> win32_interrupt_event p = Some (VInt 812)"
    by simp
  from a b show ?thesis by blast
qed

text \<open>
  Claim C6: when the spawn primitive raises \<open>e\<close>, the launch raises \<open>e\<close> itself, whatever
  happens while the diagnostic is built and logged (also when the log sink raises, and
  when \<open>e\<close> is not an \<^verbatim>\<open>Exception\<close> and bypasses the handler).
\<close>

theorem spawn_failure_reraised_unchanged:
  assumes "launch \<in> {launch_kernel, async_launch_kernel}"
      and "c \<in> set (new_calls s (snd (launch w s cmd stdin stdout stderr env independent cwd kw)))"
      and "os_spawn w c = Inl e"
  shows "fst (launch w s cmd stdin stdout stderr env independent cwd kw) = Inl e"
proof -
  from launch_is_via [OF assms(1)] obtain prim where
    via: "launch w s cmd stdin stdout stderr env independent cwd kw =
          launch_via prim w s cmd stdin stdout stderr env independent cwd kw"
    by blast
  from assms(2) new_call_launch_via [of c s prim w cmd stdin stdout stderr env independent cwd kw]
  obtain kwargs ie s1 where
    prep: "prepare_process_args w s stdin stdout stderr env independent cwd kw = (Inr (kwargs, ie), s1)"
    and c: "c = the_call prim w s1 cmd kwargs"
    and nb: "\<not> collides launch_parameter_names kw"
    unfolding via by blast
  from launch_via_raises [OF prep _ nb] assms(3) c show ?thesis
    unfolding via by simp
qed

text \<open>
  Witness for C6: the log sink raises, nothing is logged, and the caller still sees the
  error of the spawn primitive.
\<close>

theorem spawn_failure_reraised_unchanged_witness:
  "fst (launch_kernel deaf_world init_state [''/does/not/exist''] VNone VNone VNone (Some 2) False None [])
     = Inl (Raised FileNotFoundError ''/does/not/exist'') \<and>
   error_log (snd (launch_kernel deaf_world init_state [''/does/not/exist''] VNone VNone VNone (Some 2)
     False None [])) = []"
proof -
  let ?L = "launch_kernel deaf_world init_state [''/does/not/exist''] VNone VNone VNone (Some 2)
          False None []"
  have m: "launch_kernel \<in> {launch_kernel, async_launch_kernel}" by simp
  have c: "hd (new_calls init_state (snd ?L)) \<in> set (new_calls init_state (snd ?L))"
    by (simp add: launch_deaf_example new_calls_def init_state_sel)
  have e: "os_spawn deaf_world (hd (new_calls init_state (snd ?L))) =
             Inl (Raised FileNotFoundError ''/does/not/exist'')"
    by (simp add: deaf_world_sel)
  have l: "error_log (snd ?L) = []"
    by (simp add: launch_deaf_example init_state_sel)
  note t = spawn_failure_reraised_unchanged [OF m, where c = "hd (new_calls init_state (snd ?L))"
      and s = init_state and w = deaf_world and cmd = "[''/does/not/exist'']" and stdin = VNone
      and stdout = VNone and stderr = VNone and env = "Some 2" and independent = False
      and cwd = None and kw = "[]" and e = "Raised FileNotFoundError ''/does/not/exist''"]
  from t c e have "fst ?L = Inl (Raised FileNotFoundError ''/does/not/exist'')"
    by blast
  with l show ?thesis by blast
qed






text \<open>
  Claim C9: the asynchronous path makes the same spawn calls as the synchronous one (same
  command, keyword arguments and environment) except for the primitive, which is
  \<^verbatim>\<open>Popen\<close> in the synchronous path and, in the asynchronous path,
  \<^verbatim>\<open>create_subprocess_exec\<close> off Windows and \<^verbatim>\<open>Popen\<close> on Windows; the store is
  left the same; on Windows the two paths are equal altogether.
\<close>

theorem async_plan_equals_sync_plan:
  "new_calls s (snd (async_launch_kernel w s cmd stdin stdout stderr env independent cwd kw)) =
     map (\<lambda>c. c\<lparr>primitive := (if sys_platform w = ''win32'' then Popen else create_subprocess_exec)\<rparr>)
       (new_calls s (snd (launch_kernel w s cmd stdin stdout stderr env independent cwd kw))) \<and>
   (\<forall>c \<in> set (new_calls s (snd (launch_kernel w s cmd stdin stdout stderr env independent cwd kw))).
      primitive c = Popen) \<and>
   heap (snd (async_launch_kernel w s cmd stdin stdout stderr env independent cwd kw)) =
     heap (snd (launch_kernel w s cmd stdin stdout stderr env independent cwd kw)) \<and>
   (sys_platform w = ''win32'' \<longrightarrow>
      async_launch_kernel w s cmd stdin stdout stderr env independent cwd kw =
      launch_kernel w s cmd stdin stdout stderr env independent cwd kw)"
proof -
  have upd: "the_call prim w s1 cmd kwargs\<lparr>primitive := prim'\<rparr> = the_call prim' w s1 cmd kwargs"
    for prim prim' s1 kwargs
    by (simp add: the_call_def)
  have a: "new_calls s (snd (async_launch_kernel w s cmd stdin stdout stderr env independent cwd kw)) =
     map (\<lambda>c. c\<lparr>primitive := (if sys_platform w = ''win32'' then Popen else create_subprocess_exec)\<rparr>)
       (new_calls s (snd (launch_kernel w s cmd stdin stdout stderr env independent cwd kw)))"
    by (simp add: launch_kernel_via async_launch_kernel_via new_calls_launch_via upd
        split: prod.splits sum.splits)
  have b: "\<forall>c \<in> set (new_calls s (snd (launch_kernel w s cmd stdin stdout stderr env independent cwd kw))).
      primitive c = Popen"
    by (auto simp add: launch_kernel_via new_calls_launch_via the_call_def split: prod.splits sum.splits)
  have c: "heap (snd (async_launch_kernel w s cmd stdin stdout stderr env independent cwd kw)) =
     heap (snd (launch_kernel w s cmd stdin stdout stderr env independent cwd kw))"
    by (simp add: launch_kernel_via async_launch_kernel_via launch_via_heap)
  have d: "sys_platform w = ''win32'' \<longrightarrow>
      async_launch_kernel w s cmd stdin stdout stderr env independent cwd kw =
      launch_kernel w s cmd stdin stdout stderr env independent cwd kw"
    by (simp add: launch_kernel_via async_launch_kernel_via)
  from a b c d show ?thesis by blast
qed

text \<open>
  Witness for C9: equal on the Windows host; on the POSIX host the asynchronous primitive
  with the same keyword arguments.
\<close>

theorem async_plan_equals_sync_plan_witness:
  "async_launch_kernel win32_world init_state [''~/kernel.exe''] VNone VNone VNone (Some 2) False None []
     = launch_kernel win32_world init_state [''~/kernel.exe''] VNone VNone VNone (Some 2) False None [] \<and>
   map primitive (new_calls init_state (snd (async_launch_kernel posix_world init_state
       [''~/bin/kernel'', ''-f''] VNone VNone VNone (Some 2) False None []))) = [create_subprocess_exec] \<and>
   map call_kwargs (new_calls init_state (snd (async_launch_kernel posix_world init_state
       [''~/bin/kernel'', ''-f''] VNone VNone VNone (Some 2) False None []))) =
   map call_kwargs (new_calls init_state (snd (launch_kernel posix_world init_state
       [''~/bin/kernel'', ''-f''] VNone VNone VNone (Some 2) False None [])))"
proof -
  have p: "sys_platform win32_world = ''win32''" by (simp add: win32_world_sel)
  from async_plan_equals_sync_plan [of init_state win32_world "[''~/kernel.exe'']" VNone VNone VNone
      "Some 2" False None "[]"] p
  have a: "async_launch_kernel win32_world init_state [''~/kernel.exe''] VNone VNone VNone (Some 2) False None []
     = launch_kernel win32_world init_state [''~/kernel.exe''] VNone VNone VNone (Some 2) False None []"
    by blast
  from async_plan_equals_sync_plan [of init_state posix_world "[''~/bin/kernel'', ''-f'']" VNone VNone VNone
      "Some 2" False None "[]"]
  have "new_calls init_state (snd (async_launch_kernel posix_world init_state
       [''~/bin/kernel'', ''-f''] VNone VNone VNone (Some 2) False None [])) =
     map (\<lambda>c. c\<lparr>primitive := (if sys_platform posix_world = ''win32'' then Popen
                                else create_subprocess_exec)\<rparr>)
       (new_calls init_state (snd (launch_kernel posix_world init_state
       [''~/bin/kernel'', ''-f''] VNone VNone VNone (Some 2) False None [])))"
    by blast
  then have b: "map primitive (new_calls init_state (snd (async_launch_kernel posix_world init_state
       [''~/bin/kernel'', ''-f''] VNone VNone VNone (Some 2) False None []))) = [create_subprocess_exec] \<and>
   map call_kwargs (new_calls init_state (snd (async_launch_kernel posix_world init_state
       [''~/bin/kernel'', ''-f''] VNone VNone VNone (Some 2) False None []))) =
   map call_kwargs (new_calls init_state (snd (launch_kernel posix_world init_state
       [''~/bin/kernel'', ''-f''] VNone VNone VNone (Some 2) False None [])))"
    by (simp add: new_calls_posix_example posix_world_sel)
  from a b show ?thesis by blast
qed

text \<open>
  Claim C10 as stated (bag entries named like the explicit parameters are silently
  overwritten by the resolved values) fails: such an entry never reaches the dictionary.
  \<^verbatim>\<open>stdin\<close>, \<^verbatim>\<open>stdout\<close>, \<^verbatim>\<open>stderr\<close>, \<^verbatim>\<open>cwd\<close> and \<^verbatim>\<open>env\<close> are declared parameters, so
  a call whose bag names one of them gives that parameter two values and raises
  \<^verbatim>\<open>TypeError\<close>: no dictionary is built, and a launch with that bag invokes no spawn
  primitive.
\<close>

theorem colliding_bag_raises_counterexample:
  "prepare_process_args posix_world init_state (VInt 0) VNone VNone (Some 2) True (Some ''/srv'')
       [(''stdin'', VInt 9), (''bufsize'', VInt 0)] =
     (Inl (Raised TypeError ''got multiple values for keyword argument''), init_state) \<and>
   launch_kernel posix_world init_state [''/usr/bin/kernel''] (VInt 0) VNone VNone (Some 2) True
       (Some ''/srv'') [(''stdin'', VInt 9), (''bufsize'', VInt 0)] =
     (Inl (Raised TypeError ''got multiple values for keyword argument''), init_state)"
  by (simp add: launch_kernel_def prepare_colliding_example collides_def launch_parameter_names_def
      parameter_names_def)

text \<open>
  Claim C10, amended: a bag that names \<^verbatim>\<open>stdin\<close>, \<^verbatim>\<open>stdout\<close>, \<^verbatim>\<open>stderr\<close>, \<^verbatim>\<open>env\<close>,
  \<^verbatim>\<open>independent\<close> or \<^verbatim>\<open>cwd\<close> makes the call raise \<^verbatim>\<open>TypeError\<close> and changes nothing.
  Whenever a dictionary is built, the bag holds none of these names; the dictionary holds
  the explicitly resolved values under \<^verbatim>\<open>stdin\<close>, \<^verbatim>\<open>stdout\<close>, \<^verbatim>\<open>stderr\<close>, \<^verbatim>\<open>cwd\<close> and
  \<^verbatim>\<open>env\<close>, and under every other name what the bag holds there, except the names the
  platform branch sets (\<^verbatim>\<open>creationflags\<close> and \<^verbatim>\<open>close_fds\<close> on Windows,
  \<^verbatim>\<open>start_new_session\<close> elsewhere).
\<close>

theorem explicit_parameters_bound_once:
  "(collides parameter_names kw \<longrightarrow>
      prepare_process_args w s stdin stdout stderr env independent cwd kw =
        (Inl (Raised TypeError ''got multiple values for keyword argument''), s)) \<and>
   (\<forall>kwargs ie s1.
      prepare_process_args w s stdin stdout stderr env independent cwd kw = (Inr (kwargs, ie), s1) \<longrightarrow>
        (\<forall>name \<in> set parameter_names. map_of kw name = None) \<and>
        map_of kwargs ''stdin'' = Some (if stdin = VNone then PIPE else stdin) \<and>
        map_of kwargs ''cwd'' = Some (cwd_value cwd) \<and>
        map_of kwargs ''env'' = Some (VDict (env_target s env)) \<and>
        (\<exists>so se. resolved_outputs w stdout stderr so se \<and>
           map_of kwargs ''stdout'' = Some so \<and> map_of kwargs ''stderr'' = Some se) \<and>
        (\<forall>k. k \<notin> set parameter_names \<and>
              k \<notin> (if sys_platform w = ''win32'' then {''creationflags'', ''close_fds''}
                     else {''start_new_session''}) \<longrightarrow>
              map_of kwargs k = map_of kw k))"
proof -
  have one: "collides parameter_names kw \<longrightarrow>
      prepare_process_args w s stdin stdout stderr env independent cwd kw =
        (Inl (Raised TypeError ''got multiple values for keyword argument''), s)"
    by (simp add: prepare_process_args_collides)
  have two: "(\<forall>name \<in> set parameter_names. map_of kw name = None) \<and>
        map_of kwargs ''stdin'' = Some (if stdin = VNone then PIPE else stdin) \<and>
        map_of kwargs ''cwd'' = Some (cwd_value cwd) \<and>
        map_of kwargs ''env'' = Some (VDict (env_target s env)) \<and>
        (\<exists>so se. resolved_outputs w stdout stderr so se \<and>
           map_of kwargs ''stdout'' = Some so \<and> map_of kwargs ''stderr'' = Some se) \<and>
        (\<forall>k. k \<notin> set parameter_names \<and>
              k \<notin> (if sys_platform w = ''win32'' then {''creationflags'', ''close_fds''}
                     else {''start_new_session''}) \<longrightarrow>
              map_of kwargs k = map_of kw k)"
    if prep: "prepare_process_args w s stdin stdout stderr env independent cwd kw = (Inr (kwargs, ie), s1)"
    for kwargs ie s1
  proof -
    from prepare_process_args_receivable [OF prep] not_collides_map_of [of parameter_names kw]
    have bag: "\<forall>name \<in> set parameter_names. map_of kw name = None" by blast
    from prepare_process_args_unfold [OF prep] obtain so se where
      ro: "resolved_outputs w stdout stderr so se" and
      br: "if sys_platform w = ''win32''
        then prepare_win32 w (base_state s env) (env_target s env) independent
               (endswith (sys_executable w) ''pythonw.exe'') cwd
               (main_kwargs s stdin so se env cwd kw) = (Inr (kwargs, ie), s1)
        else prepare_posix w (base_state s env) (env_target s env) independent
               (main_kwargs s stdin so se env cwd kw) = (Inr (kwargs, ie), s1)"
      by blast
    have five: "map_of kwargs ''stdin'' = Some (if stdin = VNone then PIPE else stdin) \<and>
           map_of kwargs ''cwd'' = Some (cwd_value cwd) \<and>
           map_of kwargs ''env'' = Some (VDict (env_target s env)) \<and>
           map_of kwargs ''stdout'' = Some so \<and> map_of kwargs ''stderr'' = Some se"
    proof (cases "sys_platform w = ''win32''")
      case True
      with br have w32: "prepare_win32 w (base_state s env) (env_target s env) independent
               (endswith (sys_executable w) ''pythonw.exe'') cwd
               (main_kwargs s stdin so se env cwd kw) = (Inr (kwargs, ie), s1)"
        by simp
      from prepare_win32_kwargs [OF w32, of "''stdin''"] prepare_win32_kwargs [OF w32, of "''env''"]
        prepare_win32_kwargs [OF w32, of "''stdout''"] prepare_win32_kwargs [OF w32, of "''stderr''"]
        prepare_win32_cwd [OF w32]
      show ?thesis by (simp add: main_kwargs_map_of)
    next
      case False
      with br have px: "prepare_posix w (base_state s env) (env_target s env) independent
               (main_kwargs s stdin so se env cwd kw) = (Inr (kwargs, ie), s1)"
        by simp
      from prepare_posix_kwargs [OF px] show ?thesis by (simp add: main_kwargs_map_of)
    qed
    have rest: "map_of kwargs k = map_of kw k"
      if k: "k \<notin> set parameter_names"
        "k \<notin> (if sys_platform w = ''win32'' then {''creationflags'', ''close_fds''}
               else {''start_new_session''})"
      for k
    proof (cases "sys_platform w = ''win32''")
      case True
      with br have w32: "prepare_win32 w (base_state s env) (env_target s env) independent
               (endswith (sys_executable w) ''pythonw.exe'') cwd
               (main_kwargs s stdin so se env cwd kw) = (Inr (kwargs, ie), s1)"
        by simp
      from k True have "k \<noteq> ''creationflags''" "k \<noteq> ''close_fds''" "k \<noteq> ''cwd''"
        by (auto simp add: parameter_names_def)
      from prepare_win32_kwargs [OF w32 this] k(1) show ?thesis
        by (simp add: main_kwargs_map_of parameter_names_def)
    next
      case False
      with br have px: "prepare_posix w (base_state s env) (env_target s env) independent
               (main_kwargs s stdin so se env cwd kw) = (Inr (kwargs, ie), s1)"
        by simp
      from prepare_posix_kwargs [OF px] k False show ?thesis
        by (simp add: main_kwargs_map_of parameter_names_def)
    qed
    from bag five ro rest show ?thesis by blast
  qed
  from one two show ?thesis by blast
qed

text \<open>
  Witness for C10: a bag that names \<^verbatim>\<open>stdin\<close> raises; the bag \<^verbatim>\<open>bufsize = 0\<close> is kept
  beside the resolved values.
\<close>

theorem explicit_parameters_bound_once_witness:
  "collides parameter_names [(''stdin'', VInt 9), (''bufsize'', VInt 0)] \<and>
   fst (prepare_process_args posix_world init_state (VInt 0) VNone VNone (Some 2) True (Some ''/srv'')
          [(''stdin'', VInt 9), (''bufsize'', VInt 0)]) =
     Inl (Raised TypeError ''got multiple values for keyword argument'') \<and>
   (\<exists>kwargs ie s1.
      prepare_process_args posix_world init_state (VInt 0) VNone VNone (Some 2) True (Some ''/srv'')
        [(''bufsize'', VInt 0)] = (Inr (kwargs, ie), s1) \<and>
      map_of kwargs ''stdin'' = Some (VInt 0) \<and>
      map_of kwargs ''cwd'' = Some (VStr ''/srv'') \<and>
      map_of kwargs ''env'' = Some (VDict 2) \<and>
      map_of kwargs ''bufsize'' = Some (VInt 0))"
proof -
  let ?kwargs = "[(''bufsize'', VInt 0), (''stdin'', VInt 0), (''stdout'', VNone), (''stderr'', VNone),
            (''cwd'', VStr ''/srv''), (''env'', VDict 2), (''start_new_session'', VBool True)]"
  have c: "collides parameter_names [(''stdin'', VInt 9), (''bufsize'', VInt 0)]"
    by (simp add: collides_def parameter_names_def)
  note t1 = explicit_parameters_bound_once [where kw = "[(''stdin'', VInt 9), (''bufsize'', VInt 0)]"
      and w = posix_world and s = init_state and stdin = "VInt 0" and stdout = VNone and stderr = VNone
      and env = "Some 2" and independent = True and cwd = "Some ''/srv''"]
  from t1 c have a: "fst (prepare_process_args posix_world init_state (VInt 0) VNone VNone (Some 2) True
          (Some ''/srv'') [(''stdin'', VInt 9), (''bufsize'', VInt 0)]) =
     Inl (Raised TypeError ''got multiple values for keyword argument'')"
    by simp
  note t2 = explicit_parameters_bound_once [where kw = "[(''bufsize'', VInt 0)]"
      and w = posix_world and s = init_state and stdin = "VInt 0" and stdout = VNone and stderr = VNone
      and env = "Some 2" and independent = True and cwd = "Some ''/srv''"]
  from t2 prepare_bag_example
  have "map_of ?kwargs ''stdin'' = Some (if VInt 0 = VNone then PIPE else VInt 0) \<and>
        map_of ?kwargs ''cwd'' = Some (cwd_value (Some ''/srv''))"
    by blast
  then have b: "map_of ?kwargs ''stdin'' = Some (VInt 0) \<and> map_of ?kwargs ''cwd'' = Some (VStr ''/srv'') \<and>
      map_of ?kwargs ''env'' = Some (VDict 2) \<and> map_of ?kwargs ''bufsize'' = Some (VInt 0)"
    by (simp add: cwd_value_def)
  from c a b prepare_bag_example show ?thesis by blast
qed

end
